theory Spec2Isabelle
  imports Main "HOL-Library.Sublist"
begin

section \<open>Python strings and paths\<close>

text \<open>
  A Python \<open>str\<close> is a sequence of characters; the string methods used by
  \<open>build_documentation.py\<close> do not look inside a character, so they are modelled over
  lists of any element type and used at \<^typ>\<open>string\<close>. The receiver of a method is the
  first argument.
\<close>

text \<open>\<open>s.removeprefix(p)\<close>: \<open>s[len(p):]\<close> when \<open>s\<close> starts with \<open>p\<close>, else \<open>s\<close>.\<close>

definition removeprefix :: "'a list \<Rightarrow> 'a list \<Rightarrow> 'a list" where
  "removeprefix s p = (if prefix p s then drop (length p) s else s)"

text \<open>\<open>s.removesuffix(x)\<close>: \<open>s[:-len(x)]\<close> when \<open>x\<close> is not empty and \<open>s\<close> ends with it.\<close>

definition removesuffix :: "'a list \<Rightarrow> 'a list \<Rightarrow> 'a list" where
  "removesuffix s x =
     (if x \<noteq> [] \<and> suffix x s then take (length s - length x) s else s)"

text \<open>\<open>s.endswith(x)\<close> and the substring test \<open>x in s\<close>.\<close>

definition endswith :: "'a list \<Rightarrow> 'a list \<Rightarrow> bool" where
  "endswith s x = suffix x s"

definition contains :: "'a list \<Rightarrow> 'a list \<Rightarrow> bool" where
  "contains s x = sublist x s"

text \<open>
  \<open>s.split(sep)\<close> for a separator of one character: the pieces between the
  separators, empty pieces included; the result is never the empty list.
\<close>

fun split :: "'a list \<Rightarrow> 'a \<Rightarrow> 'a list list" where
  "split [] sep = [[]]"
| "split (c # cs) sep =
     (if c = sep then [] # split cs sep
      else (case split cs sep of
              [] \<Rightarrow> [[c]]
            | part # parts \<Rightarrow> (c # part) # parts))"

text \<open>\<open>sep.join(parts)\<close>.\<close>

fun join :: "'a list \<Rightarrow> 'a list list \<Rightarrow> 'a list" where
  "join sep [] = []"
| "join sep [part] = part"
| "join sep (part # parts) = part @ sep @ join sep parts"

text \<open>
  \<open>s.replace(old, new)\<close>: every occurrence of \<open>old\<close>, found from the left without
  overlap, becomes \<open>new\<close>. With an empty \<open>old\<close> Python puts \<open>new\<close> before every
  character and at the end.
\<close>

fun replace_from :: "'a list \<Rightarrow> 'a list \<Rightarrow> 'a list \<Rightarrow> 'a list" where
  "replace_from [] old new = []"
| "replace_from (c # cs) old new =
     (if old \<noteq> [] \<and> prefix old (c # cs)
      then new @ replace_from (drop (length old) (c # cs)) old new
      else c # replace_from cs old new)"

definition replace :: "'a list \<Rightarrow> 'a list \<Rightarrow> 'a list \<Rightarrow> 'a list" where
  "replace s old new =
     (if old = [] then new @ concat (map (\<lambda>c. c # new) s) else replace_from s old new)"

text \<open>
  \<open>os.path.basename\<close>, \<open>os.path.dirname\<close> and \<open>os.path.join\<close> of two paths, as
  \<open>posixpath\<close> computes them: the base name is what follows the last separator; the
  directory name is what precedes it, with the trailing separators removed unless it
  consists of separators only.
\<close>

definition basename :: "string \<Rightarrow> string" where
  "basename p = rev (takeWhile (\<lambda>c. c \<noteq> CHR ''/'') (rev p))"

definition dirname :: "string \<Rightarrow> string" where
  "dirname p =
     (let head = take (length p - length (basename p)) p
      in if head \<noteq> [] \<and> head \<noteq> replicate (length head) CHR ''/''
         then rev (dropWhile (\<lambda>c. c = CHR ''/'') (rev head))
         else head)"

definition os_path_join :: "string \<Rightarrow> string \<Rightarrow> string" where
  "os_path_join a b =
     (if prefix ''/'' b then b
      else if a = [] \<or> endswith a ''/'' then a @ b
      else a @ ''/'' @ b)"

section \<open>Errors and indexing\<close>

text \<open>
  \<open>ValueError\<close> is the one exception the script raises itself. \<open>IndexError\<close> is what
  indexing a list out of range raises. \<open>External\<close> stands for any exception raised by
  the documentation engine or by the operating system.
\<close>

datatype error = ValueError string | IndexError | External string

text \<open>\<open>xs[i]\<close>: a negative index counts from the end.\<close>

definition getitem :: "'a list \<Rightarrow> int \<Rightarrow> error + 'a" where
  "getitem xs i =
     (if 0 \<le> i \<and> i < int (length xs) then Inr (xs ! nat i)
      else if i < 0 \<and> - i \<le> int (length xs) then Inr (xs ! nat (int (length xs) + i))
      else Inl IndexError)"

section \<open>The Module Path Resolver\<close>

text \<open>\<open>file2module(file, path)\<close>, lines 145 to 163.\<close>

definition file2module :: "string \<Rightarrow> string \<Rightarrow> string" where
  "file2module file path =
     (let file = removeprefix file path;
          file = removesuffix file ''.py'';
          parts = filter (\<lambda>part. part \<noteq> []) (split file CHR ''/'')
      in join ''.'' parts)"

text \<open>The value of the local variable \<open>parts\<close> of \<open>file2module\<close>.\<close>

definition file2module_parts :: "string \<Rightarrow> string \<Rightarrow> string list" where
  "file2module_parts file path =
     filter (\<lambda>part. part \<noteq> [])
       (split (removesuffix (removeprefix file path) ''.py'') CHR ''/'')"

text \<open>
  The algorithm as the specification words it, for a root that is a prefix of the file:
  strip the root prefix; strip a trailing \<open>.py\<close> suffix; split on path separators; drop
  empty segments; join the remaining segments with dots.
\<close>

definition strip_root :: "string \<Rightarrow> string \<Rightarrow> string" where
  "strip_root r f = drop (length r) f"

definition strip_py :: "string \<Rightarrow> string" where
  "strip_py s = (if suffix ''.py'' s then butlast (butlast (butlast s)) else s)"

definition spec_module_name :: "string \<Rightarrow> string \<Rightarrow> string" where
  "spec_module_name f r =
     join ''.'' (filter (\<lambda>seg. seg \<noteq> []) (split (strip_py (strip_root r f)) CHR ''/''))"

text \<open>
  A dotted name has an empty segment when one of its pieces between dots is empty: it
  begins with a dot, ends with one, or has two dots in a row.
\<close>

definition dot_segments :: "string \<Rightarrow> string list" where
  "dot_segments s = split s CHR ''.''"

definition has_empty_segment :: "string \<Rightarrow> bool" where
  "has_empty_segment s = ([] \<in> set (dot_segments s))"

section \<open>The documentation engine, as the script sees it\<close>

text \<open>
  \<open>pydoc_markdown\<close> is a library the script calls and does not define. Of its objects
  the model keeps the fields the script reads or writes: of a \<open>PythonLoader\<close> its
  \<open>modules\<close>, \<open>packages\<close>, \<open>search_path\<close> and \<open>parser.print_function\<close> (the field
  names carry the prefix \<open>loader_\<close>, since a Render Session has fields of the same
  names); of a \<open>PydocMarkdown\<close> configuration its \<open>loaders\<close>, \<open>renderer.filename\<close> and
  \<open>unknown_fields\<close>; of a module its \<open>location.filename\<close>.
\<close>

record parser =
  print_function :: bool

record python_loader =
  loader_modules :: "string list option"
  loader_packages :: "string list option"
  loader_search_path :: "string list option"
  loader_parser :: parser

datatype loader = PythonLoader python_loader | OtherLoader string

record pydoc_markdown =
  loaders :: "loader list"
  renderer_filename :: "string option"
  unknown_fields :: "string list"

record api_module =
  mod_name :: string
  location_filename :: string

text \<open>
  The \<open>config\<close> argument of a Render Session is \<open>None\<close>, a dictionary or the path of
  a file. The script never looks into the dictionary; its values are kept as text.
\<close>

datatype config_arg = NoConfig | ConfigDict "(string \<times> string) list" | ConfigFile string

text \<open>The truth value Python gives \<open>self.config\<close> and a list that may be \<open>None\<close>.\<close>

fun config_truthy :: "config_arg \<Rightarrow> bool" where
  "config_truthy NoConfig = False"
| "config_truthy (ConfigDict d) = (d \<noteq> [])"
| "config_truthy (ConfigFile p) = (p \<noteq> [])"

fun truthy :: "'a list option \<Rightarrow> bool" where
  "truthy None = False"
| "truthy (Some xs) = (xs \<noteq> [])"

text \<open>
  What lies outside the script (the file system, the working directory, the state of
  the engine) is a value of an arbitrary type \<open>'w\<close>. A call into the library or the
  operating system takes it and returns it changed, with a result or an exception.
  The calls themselves are parameters of the model, named after the Python they stand
  for: \<open>PydocMarkdown()\<close>, \<open>config.load_config\<close>, \<open>config.init\<close>,
  \<open>config.load_modules\<close>, \<open>config.process\<close>, \<open>config.render\<close>, \<open>os.path.abspath\<close>,
  \<open>os.makedirs\<close>, \<open>os.walk\<close>. \<open>process\<close> and \<open>render\<close> receive the list of modules and
  may change it in place, so they return the list as they leave it.
\<close>

record 'w engine =
  PydocMarkdown_new :: pydoc_markdown
  config_load_config :: "config_arg \<Rightarrow> pydoc_markdown \<Rightarrow> 'w \<Rightarrow> (error + pydoc_markdown) \<times> 'w"
  config_init :: "string \<Rightarrow> pydoc_markdown \<Rightarrow> 'w \<Rightarrow> (error + pydoc_markdown) \<times> 'w"
  config_load_modules :: "pydoc_markdown \<Rightarrow> 'w \<Rightarrow> (error + api_module list) \<times> 'w"
  config_process ::
    "pydoc_markdown \<Rightarrow> api_module list \<Rightarrow> 'w \<Rightarrow> (error + api_module list) \<times> 'w"
  config_render ::
    "pydoc_markdown \<Rightarrow> api_module list \<Rightarrow> 'w \<Rightarrow> (error + api_module list) \<times> 'w"
  os_path_abspath :: "string \<Rightarrow> 'w \<Rightarrow> (error + string) \<times> 'w"
  os_makedirs :: "string \<Rightarrow> 'w \<Rightarrow> (error + unit) \<times> 'w"
  os_walk :: "string \<Rightarrow> 'w \<Rightarrow> (string \<times> string list \<times> string list) list"

text \<open>
  The state of a run: the records handed to \<open>logging\<close> so far (level, format string,
  arguments), oldest first, and the outside world.
\<close>

datatype level = INFO | WARNING

datatype log_record = LogRecord level string "string list"

record 'w world =
  logged :: "log_record list"
  outside :: 'w

type_synonym ('w, 'a) action = "'w world \<Rightarrow> (error + 'a) \<times> 'w world"

definition return :: "'a \<Rightarrow> ('w, 'a) action" where
  "return x s = (Inr x, s)"

definition raise :: "error \<Rightarrow> ('w, 'a) action" where
  "raise e s = (Inl e, s)"

text \<open>Sequencing: an exception of the first action ends the sequence.\<close>

definition bind_action :: "('w, 'a) action \<Rightarrow> ('a \<Rightarrow> ('w, 'b) action) \<Rightarrow> ('w, 'b) action" where
  "bind_action m f s =
     (case m s of
        (Inl e, s') \<Rightarrow> (Inl e, s')
      | (Inr x, s') \<Rightarrow> f x s')"

definition lift :: "error + 'a \<Rightarrow> ('w, 'a) action" where
  "lift r s = (r, s)"

definition call :: "('w \<Rightarrow> (error + 'a) \<times> 'w) \<Rightarrow> ('w, 'a) action" where
  "call f s = (case f (outside s) of (r, w) \<Rightarrow> (r, s\<lparr>outside := w\<rparr>))"

definition log_msg :: "log_record \<Rightarrow> ('w, unit) action" where
  "log_msg r s = (Inr (), s\<lparr>logged := logged s @ [r]\<rparr>)"

section \<open>The Render Session\<close>

text \<open>The attributes set by \<open>RenderSession.__init__\<close>, lines 41 to 66.\<close>

record RenderSession =
  config :: config_arg
  render_toc :: "bool option"
  search_path :: "string list option"
  modules :: "string list option"
  packages :: "string list option"
  py2 :: "bool option"

text \<open>
  \<open>next((l for l in config.loaders if isinstance(l, PythonLoader)), None)\<close>, and the
  loader list with that first Python loader changed (the script assigns to the fields
  of the loader object it found, which is the one in the list).
\<close>

fun first_python_loader :: "loader list \<Rightarrow> python_loader option" where
  "first_python_loader [] = None"
| "first_python_loader (PythonLoader l # ls) = Some l"
| "first_python_loader (OtherLoader x # ls) = first_python_loader ls"

fun set_first_python_loader :: "python_loader \<Rightarrow> loader list \<Rightarrow> loader list" where
  "set_first_python_loader l' [] = []"
| "set_first_python_loader l' (PythonLoader l # ls) = PythonLoader l' # ls"
| "set_first_python_loader l' (OtherLoader x # ls) = OtherLoader x # set_first_python_loader l' ls"

text \<open>The condition of line 79.\<close>

definition override_requested :: "RenderSession \<Rightarrow> bool" where
  "override_requested self =
     (truthy (modules self) \<or> truthy (packages self) \<or> truthy (search_path self)
      \<or> py2 self \<noteq> None)"

text \<open>\<open>RenderSession._apply_overrides\<close>, lines 68 to 97.\<close>

definition apply_overrides :: "RenderSession \<Rightarrow> pydoc_markdown \<Rightarrow> error + pydoc_markdown" where
  "apply_overrides self cfg =
     (if override_requested self then
        (case first_python_loader (loaders cfg) of
           None \<Rightarrow> Inl (ValueError ''no python loader found'')
         | Some loader \<Rightarrow>
             (let loader = (if truthy (modules self)
                            then loader\<lparr>loader_modules := modules self\<rparr> else loader);
                  loader = (if truthy (packages self)
                            then loader\<lparr>loader_packages := packages self\<rparr> else loader);
                  loader = (if truthy (search_path self)
                            then loader\<lparr>loader_search_path := search_path self\<rparr> else loader);
                  loader = (case py2 self of
                              None \<Rightarrow> loader
                            | Some b \<Rightarrow>
                                loader\<lparr>loader_parser := (loader_parser loader)\<lparr>print_function := \<not> b\<rparr>\<rparr>)
              in Inr (cfg\<lparr>loaders := set_first_python_loader loader (loaders cfg)\<rparr>)))
      else Inr cfg)"

text \<open>
  \<open>RenderSession.load\<close>, lines 99 to 122. \<open>base_config\<close> is its first step (lines 106
  to 108): a fresh configuration, with the session's \<open>config\<close> loaded into it when that
  is not empty.
\<close>

definition base_config :: "'w engine \<Rightarrow> RenderSession \<Rightarrow> ('w, pydoc_markdown) action" where
  "base_config E self =
     (if config_truthy (config self)
      then call (config_load_config E (config self) (PydocMarkdown_new E))
      else return (PydocMarkdown_new E))"

definition unknown_fields_warning :: "string list \<Rightarrow> log_record" where
  "unknown_fields_warning unknown =
     LogRecord WARNING
       (''Unknown configuration options:'' @ [CHR 0x0A] @ ''%s'' @ [CHR 0x0A])
       [join ([CHR 0x0A] @ ''------'' @ [CHR 0x0A]) unknown]"

definition load :: "'w engine \<Rightarrow> RenderSession \<Rightarrow> ('w, pydoc_markdown) action" where
  "load E self =
     bind_action (base_config E self) (\<lambda>cfg.
     bind_action (lift (apply_overrides self cfg)) (\<lambda>cfg.
     bind_action
       (case config self of
          ConfigFile p \<Rightarrow>
            bind_action (call (os_path_abspath E p)) (\<lambda>a.
            call (config_init E (dirname a) cfg))
        | _ \<Rightarrow> return cfg) (\<lambda>cfg.
     bind_action
       (if unknown_fields cfg \<noteq> []
        then log_msg (unknown_fields_warning (unknown_fields cfg))
        else return ()) (\<lambda>_.
     return cfg))))"

text \<open>
  \<open>RenderSession.render\<close>, lines 124 to 142. Python does not fix the order in which
  \<open>list(watch_files)\<close> lists a set; the model lists the file names without repetition
  in some order, and no theorem below depends on which.
\<close>

definition watch_list :: "RenderSession \<Rightarrow> api_module list \<Rightarrow> string list" where
  "watch_list self ms =
     (let watch_files = remdups (map location_filename ms)
      in case config self of
           ConfigFile p \<Rightarrow> List.insert p watch_files
         | _ \<Rightarrow> watch_files)"

definition render :: "'w engine \<Rightarrow> RenderSession \<Rightarrow> pydoc_markdown \<Rightarrow> ('w, string list) action" where
  "render E self cfg =
     bind_action (call (config_load_modules E cfg)) (\<lambda>ms.
     bind_action (call (config_process E cfg ms)) (\<lambda>ms.
     bind_action (call (config_render E cfg ms)) (\<lambda>ms.
     return (watch_list self ms))))"

section \<open>The entry orchestration\<close>

text \<open>Lines 183 to 188 of \<open>main\<close>.\<close>

definition normalize_dir :: "string \<Rightarrow> string" where
  "normalize_dir d = (if \<not> endswith d ''/'' then d @ ''/'' else d)"

definition package_name_of :: "string \<Rightarrow> error + string" where
  "package_name_of package_dir = getitem (split package_dir CHR ''/'') (- 2)"

text \<open>
  Lines 190 to 195: the files collected from the triples \<open>(root, dirs, files)\<close> that
  \<open>os.walk\<close> yields.
\<close>

definition discover :: "(string \<times> string list \<times> string list) list \<Rightarrow> string list \<Rightarrow> string list" where
  "discover walked skip_files =
     concat (map (\<lambda>(root, _, files).
                    map (os_path_join root)
                      (filter (\<lambda>f. endswith f ''.py'' \<and> f \<notin> set skip_files) files))
                 walked)"

text \<open>Lines 199 to 218: the output path and the session built for one file.\<close>

definition output_file :: "string \<Rightarrow> string \<Rightarrow> string \<Rightarrow> string" where
  "output_file file package_dir docs_dir =
     replace (replace file package_dir docs_dir) ''.py'' ''.md''"

definition session :: "string \<Rightarrow> string \<Rightarrow> string \<Rightarrow> RenderSession" where
  "session cfg_path package_dir file =
     \<lparr>config = ConfigFile cfg_path,
      render_toc = Some True,
      search_path = Some [package_dir],
      modules = Some [file2module file package_dir],
      packages = Some [],
      py2 = Some False\<rparr>"

text \<open>The test of line 205: the file is passed over.\<close>

definition skipped :: "string \<Rightarrow> string list \<Rightarrow> string \<Rightarrow> bool" where
  "skipped package_name skip_files file =
     (basename file \<in> set skip_files \<or> \<not> contains file package_name)"

text \<open>Lines 207 to 222: the body of the loop for a file that is not passed over.\<close>

definition process_file :: "'w engine \<Rightarrow> string \<Rightarrow> string \<Rightarrow> string \<Rightarrow> string \<Rightarrow> ('w, unit) action" where
  "process_file E cfg_path package_dir docs_dir file =
     bind_action (log_msg (LogRecord INFO ''Processing file: %s'' [file])) (\<lambda>_.
     bind_action (call (os_makedirs E (dirname (output_file file package_dir docs_dir)))) (\<lambda>_.
     bind_action (load E (session cfg_path package_dir file)) (\<lambda>pydocmd.
     bind_action
       (render E (session cfg_path package_dir file)
          (pydocmd\<lparr>renderer_filename := Some (output_file file package_dir docs_dir)\<rparr>)) (\<lambda>_.
     return ()))))"

text \<open>The loop of lines 204 to 222.\<close>

fun main_loop ::
  "'w engine \<Rightarrow> string \<Rightarrow> string \<Rightarrow> string \<Rightarrow> string \<Rightarrow> string list \<Rightarrow> string list
     \<Rightarrow> ('w, unit) action" where
  "main_loop E cfg_path package_dir docs_dir package_name skip_files [] = return ()"
| "main_loop E cfg_path package_dir docs_dir package_name skip_files (file # src_files) =
     (if skipped package_name skip_files file
      then main_loop E cfg_path package_dir docs_dir package_name skip_files src_files
      else bind_action (process_file E cfg_path package_dir docs_dir file) (\<lambda>_.
           main_loop E cfg_path package_dir docs_dir package_name skip_files src_files))"

text \<open>\<open>main\<close>, lines 166 to 222; \<open>src_files\<close> is \<open>None\<close> or the list given.\<close>

definition main ::
  "'w engine \<Rightarrow> string \<Rightarrow> string \<Rightarrow> string \<Rightarrow> string list \<Rightarrow> string list option
     \<Rightarrow> ('w, unit) action" where
  "main E cfg_path package_dir docs_dir skip_files src_files =
     (let package_dir = normalize_dir package_dir;
          docs_dir = normalize_dir docs_dir
      in bind_action (lift (package_name_of package_dir)) (\<lambda>package_name.
         bind_action
           (case src_files of
              None \<Rightarrow> (\<lambda>s. return (discover (os_walk E package_dir (outside s)) skip_files) s)
            | Some files \<Rightarrow> return files) (\<lambda>src_files.
         main_loop E cfg_path package_dir docs_dir package_name skip_files src_files)))"

section \<open>What the claims compare the code with\<close>

text \<open>
  The last non-empty path segment of a directory path, as claim C6 words the package
  name; a path with no non-empty segment has none.
\<close>

definition last_segment :: "string \<Rightarrow> string option" where
  "last_segment d =
     (case filter (\<lambda>seg. seg \<noteq> []) (split d CHR ''/'') of
        [] \<Rightarrow> None
      | seg # segs \<Rightarrow> Some (last (seg # segs)))"

text \<open>
  The output path as claim C2 words it: the file path with its package-directory prefix
  substituted by the docs directory and its \<open>.py\<close> suffix substituted by \<open>.md\<close>, and
  nothing else altered.
\<close>

definition substitute_prefix :: "'a list \<Rightarrow> 'a list \<Rightarrow> 'a list \<Rightarrow> 'a list" where
  "substitute_prefix s old new = (if prefix old s then new @ drop (length old) s else s)"

definition substitute_suffix :: "'a list \<Rightarrow> 'a list \<Rightarrow> 'a list \<Rightarrow> 'a list" where
  "substitute_suffix s old new =
     (if suffix old s then take (length s - length old) s @ new else s)"

definition claimed_output_file :: "string \<Rightarrow> string \<Rightarrow> string \<Rightarrow> string" where
  "claimed_output_file file package_dir docs_dir =
     substitute_suffix (substitute_prefix file package_dir docs_dir) ''.py'' ''.md''"

text \<open>
  What claim C7 calls the parser setting of a loader: the \<open>print_function\<close> of a Python
  loader; a loader of another kind has none.
\<close>

fun loader_print_function :: "loader \<Rightarrow> bool option" where
  "loader_print_function (PythonLoader l) = Some (print_function (loader_parser l))"
| "loader_print_function (OtherLoader x) = None"

section \<open>Concrete inputs\<close>

text \<open>
  A configuration with one Python loader behind a loader of another kind, three
  sessions, and an engine whose outside world is the number of calls made so far: its
  \<open>load_config\<close> installs the given loaders, its loaders find three modules in two
  files, and its \<open>process\<close> and \<open>render\<close> leave the modules as they are.
\<close>

definition demo_loader :: python_loader where
  "demo_loader =
     \<lparr>loader_modules = Some [''erptools.io''],
      loader_packages = Some [''erptools''],
      loader_search_path = Some [''.''],
      loader_parser = \<lparr>print_function = True\<rparr>\<rparr>"

definition demo_config :: pydoc_markdown where
  "demo_config =
     \<lparr>loaders = [OtherLoader ''custom'', PythonLoader demo_loader],
      renderer_filename = None,
      unknown_fields = []\<rparr>"

definition search_path_only :: RenderSession where
  "search_path_only =
     \<lparr>config = NoConfig, render_toc = None, search_path = Some [''src/''],
      modules = None, packages = None, py2 = None\<rparr>"

definition legacy_only :: RenderSession where
  "legacy_only =
     \<lparr>config = NoConfig, render_toc = None, search_path = None,
      modules = None, packages = None, py2 = Some True\<rparr>"

definition demo_modules :: "api_module list" where
  "demo_modules =
     [\<lparr>mod_name = ''erptools.io'', location_filename = ''erptools/io.py''\<rparr>,
      \<lparr>mod_name = ''erptools.io.read'', location_filename = ''erptools/io.py''\<rparr>,
      \<lparr>mod_name = ''erptools.fit'', location_filename = ''erptools/fit.py''\<rparr>]"

definition demo_engine :: "loader list \<Rightarrow> nat engine" where
  "demo_engine ls =
     \<lparr>PydocMarkdown_new = \<lparr>loaders = [], renderer_filename = None, unknown_fields = []\<rparr>,
      config_load_config = (\<lambda>src cfg w. (Inr (cfg\<lparr>loaders := ls\<rparr>), Suc w)),
      config_init = (\<lambda>dir cfg w. (Inr cfg, Suc w)),
      config_load_modules = (\<lambda>cfg w. (Inr demo_modules, Suc w)),
      config_process = (\<lambda>cfg ms w. (Inr ms, Suc w)),
      config_render = (\<lambda>cfg ms w. (Inr ms, Suc w)),
      os_path_abspath = (\<lambda>p w. (Inr (os_path_join ''/work'' p), w)),
      os_makedirs = (\<lambda>p w. (Inr (), Suc w)),
      os_walk = (\<lambda>p w. [(p, [], [''__init__.py'', ''io.py'', ''notes.txt''])])\<rparr>"

text \<open>
  The same engine with a \<open>process\<close> step that removes a module from the list it is
  handed, as a filter processor does with a module it finds empty.
\<close>

definition filtering_engine :: "nat engine" where
  "filtering_engine =
     (demo_engine [PythonLoader demo_loader])
       \<lparr>config_process :=
          (\<lambda>cfg ms w. (Inr (filter (\<lambda>m. mod_name m \<noteq> ''erptools.fit'') ms), Suc w))\<rparr>"


text \<open>
  The loader as lines 90 to 97 leave it, field by field; used to state what
  \<open>apply_overrides\<close> returns.
\<close>

definition overridden :: "RenderSession \<Rightarrow> python_loader \<Rightarrow> python_loader" where
  "overridden self l =
     \<lparr>loader_modules = (if truthy (modules self) then modules self else loader_modules l),
      loader_packages = (if truthy (packages self) then packages self else loader_packages l),
      loader_search_path =
        (if truthy (search_path self) then search_path self else loader_search_path l),
      loader_parser =
        (case py2 self of None \<Rightarrow> loader_parser l
         | Some b \<Rightarrow> (loader_parser l)\<lparr>print_function := \<not> b\<rparr>)\<rparr>"

section \<open>What a run processes\<close>

text \<open>
  Actions run one after the other; the files for which the body of the loop runs (those
  the test of line 205 does not pass over); the list of source files the loop goes
  through, walked or given; and the record \<open>logging.info\<close> receives at line 207.
\<close>

fun run_all :: "('w, unit) action list \<Rightarrow> ('w, unit) action" where
  "run_all [] = return ()"
| "run_all (a # as) = bind_action a (\<lambda>_. run_all as)"

definition processed :: "string \<Rightarrow> string list \<Rightarrow> string list \<Rightarrow> string list" where
  "processed package_name skip_files src_files =
     filter (\<lambda>file. \<not> skipped package_name skip_files file) src_files"

definition source_files :: "'w engine \<Rightarrow> string \<Rightarrow> string list \<Rightarrow> string list option \<Rightarrow> 'w \<Rightarrow> string list" where
  "source_files E package_dir skip_files src_files w =
     (case src_files of
        None \<Rightarrow> discover (os_walk E package_dir w) skip_files
      | Some files \<Rightarrow> files)"

definition processing :: "string \<Rightarrow> log_record" where
  "processing file = LogRecord INFO ''Processing file: %s'' [file]"


text \<open>An action adds to the log only records of the set \<open>P\<close>.\<close>

definition log_adds :: "log_record set \<Rightarrow> ('w, 'a) action \<Rightarrow> bool" where
  "log_adds P m = (\<forall>s r s'. m s = (r, s') \<longrightarrow> set (logged s') \<subseteq> set (logged s) \<union> P)"

section \<open>Properties of the string operations\<close>

lemma split_neq_Nil: "split s c \<noteq> []"
  by (induction s) (auto split: list.splits)

lemma split_append_sep: "split (xs @ c # ys) c = split xs c @ split ys c"
  by (induction xs) (auto split: list.splits simp: split_neq_Nil)

lemma split_no_sep: "p \<in> set (split s c) \<Longrightarrow> c \<notin> set p"
  by (induction s arbitrary: p) (auto split: list.splits if_splits)

lemma split_join:
  "parts \<noteq> [] \<Longrightarrow> split (join [c] parts) c = concat (map (\<lambda>p. split p c) parts)"
  by (induction "[c]" parts rule: join.induct) (auto simp: split_append_sep)

lemma split_leading: "prefix [c] s \<Longrightarrow> [] \<in> set (split s c)"
  by (cases s) auto

lemma split_trailing: "suffix [c] s \<Longrightarrow> [] \<in> set (split s c)"
  by (auto simp: suffix_def split_append_sep)

lemma join_Nil_iff: "[] \<notin> set parts \<Longrightarrow> join sep parts = [] \<longleftrightarrow> parts = []"
  by (induction sep parts rule: join.induct) auto

lemma set_join: "set (join sep parts) \<subseteq> set sep \<union> \<Union> (set ` set parts)"
  by (induction sep parts rule: join.induct) auto

lemma join_prefix:
  assumes "[] \<notin> set parts"
  shows "prefix [c] (join sep parts) \<longleftrightarrow> parts \<noteq> [] \<and> prefix [c] (hd parts)"
proof (cases parts)
  case Nil
  then show ?thesis by simp
next
  case (Cons p ps)
  with assms obtain x p' where "p = x # p'" by (cases p) auto
  with Cons show ?thesis by (cases ps) auto
qed

lemma join_last: "parts \<noteq> [] \<Longrightarrow> \<exists>pre. join sep parts = pre @ last parts"
proof (induction sep parts rule: join.induct)
  case (3 sep part v va)
  then obtain pre where "join sep (v # va) = pre @ last (v # va)" by auto
  then have "join sep (part # v # va) = (part @ sep @ pre) @ last (part # v # va)" by simp
  then show ?case by blast
qed auto

lemma join_suffix:
  assumes "[] \<notin> set parts"
  shows "suffix [c] (join sep parts) \<longleftrightarrow> parts \<noteq> [] \<and> suffix [c] (last parts)"
proof (cases "parts = []")
  case True then show ?thesis by simp
next
  case False
  then obtain pre where j: "join sep parts = pre @ last parts" using join_last by blast
  from False assms have "last parts \<noteq> []" using last_in_set by metis
  then obtain q x where l: "last parts = q @ [x]" by (metis append_butlast_last_id)
  show ?thesis using False by (simp add: j l suffix_def)
qed

section \<open>The Module Path Resolver: claims C1 and C10\<close>

lemma file2module_join: "file2module f r = join ''.'' (file2module_parts f r)"
  by (simp add: file2module_def file2module_parts_def Let_def)

lemma parts_nonempty: "[] \<notin> set (file2module_parts f r)"
  by (simp add: file2module_parts_def)

lemma parts_no_sep: "p \<in> set (file2module_parts f r) \<Longrightarrow> CHR ''/'' \<notin> set p"
  by (auto simp: file2module_parts_def dest: split_no_sep)

lemma has_empty_segment_join:
  "parts \<noteq> [] \<Longrightarrow>
   has_empty_segment (join ''.'' parts) \<longleftrightarrow> (\<exists>p \<in> set parts. has_empty_segment p)"
  by (simp add: has_empty_segment_def dot_segments_def split_join)

lemma file2module_spec:
  "prefix r f \<Longrightarrow> file2module f r = spec_module_name f r"
  by (simp add: file2module_def spec_module_name_def removeprefix_def removesuffix_def
      strip_root_def strip_py_def Let_def butlast_conv_take)


text \<open>
  Claim C1, as amended. For a root \<open>r\<close> that is a prefix of the file path \<open>f\<close>, and
  \<open>f\<close> ending in \<open>.py\<close>, \<open>file2module\<close> returns what the algorithm of the specification
  returns: the root stripped, a trailing \<open>.py\<close> stripped, the path split on separators,
  the empty segments dropped, the rest joined with dots. When no path segment that
  remains has an empty piece between dots of its own (no segment begins or ends with a
  dot or has two dots in a row), the result, unless it is empty, has no empty segment,
  and it has no leading and no trailing dot. The two examples of the specification hold.
\<close>

theorem file2module_prefixed:
  assumes "prefix r f" and "suffix ''.py'' f"
    and "\<forall>seg \<in> set (file2module_parts f r). \<not> has_empty_segment seg"
  shows "file2module f r = spec_module_name f r
       \<and> (file2module f r \<noteq> [] \<longrightarrow> \<not> has_empty_segment (file2module f r))
       \<and> \<not> prefix ''.'' (file2module f r)
       \<and> \<not> suffix ''.'' (file2module f r)
       \<and> file2module ''/a/b/pkg/mod.py'' ''/a/b/'' = ''pkg.mod''
       \<and> file2module ''/a/b/pkg/sub/mod.py'' ''/a/b/'' = ''pkg.sub.mod''"
proof -
  let ?parts = "file2module_parts f r"
  have algo: "file2module f r = spec_module_name f r"
    using assms(1) by (rule file2module_spec)
  have segs: "file2module f r \<noteq> [] \<longrightarrow> \<not> has_empty_segment (file2module f r)"
  proof
    assume "file2module f r \<noteq> []"
    then have "?parts \<noteq> []" by (auto simp: file2module_join)
    then show "\<not> has_empty_segment (file2module f r)"
      using assms(3) by (simp add: file2module_join has_empty_segment_join)
  qed
  have lead: "\<not> prefix ''.'' (file2module f r)"
  proof
    assume "prefix ''.'' (file2module f r)"
    then have ne: "?parts \<noteq> []" and "prefix ''.'' (hd ?parts)"
      by (simp_all add: file2module_join join_prefix [OF parts_nonempty])
    then have "has_empty_segment (hd ?parts)"
      by (simp add: has_empty_segment_def dot_segments_def split_leading)
    with ne assms(3) show False by (meson hd_in_set)
  qed
  have trail: "\<not> suffix ''.'' (file2module f r)"
  proof
    assume "suffix ''.'' (file2module f r)"
    then have ne: "?parts \<noteq> []" and "suffix ''.'' (last ?parts)"
      by (simp_all add: file2module_join join_suffix [OF parts_nonempty])
    then have "has_empty_segment (last ?parts)"
      by (simp add: has_empty_segment_def dot_segments_def split_trailing)
    with ne assms(3) show False by (meson last_in_set)
  qed
  have ex1: "file2module ''/a/b/pkg/mod.py'' ''/a/b/'' = ''pkg.mod''"
    by code_simp
  have ex2: "file2module ''/a/b/pkg/sub/mod.py'' ''/a/b/'' = ''pkg.sub.mod''"
    by code_simp
  from algo segs lead trail ex1 ex2 show ?thesis by blast
qed

text \<open>The theorem at \<open>/a/b/pkg/sub/mod.py\<close> under the root \<open>/a/b/\<close>.\<close>

theorem file2module_prefixed_witness:
  "prefix ''/a/b/'' ''/a/b/pkg/sub/mod.py''
   \<and> suffix ''.py'' ''/a/b/pkg/sub/mod.py''
   \<and> file2module_parts ''/a/b/pkg/sub/mod.py'' ''/a/b/'' = [''pkg'', ''sub'', ''mod'']
   \<and> file2module ''/a/b/pkg/sub/mod.py'' ''/a/b/'' = spec_module_name ''/a/b/pkg/sub/mod.py'' ''/a/b/''
   \<and> file2module ''/a/b/pkg/sub/mod.py'' ''/a/b/'' = ''pkg.sub.mod''
   \<and> \<not> has_empty_segment (file2module ''/a/b/pkg/sub/mod.py'' ''/a/b/'')
   \<and> \<not> prefix ''.'' (file2module ''/a/b/pkg/sub/mod.py'' ''/a/b/'')
   \<and> \<not> suffix ''.'' (file2module ''/a/b/pkg/sub/mod.py'' ''/a/b/'')"
proof -
  have h1: "prefix ''/a/b/'' ''/a/b/pkg/sub/mod.py''" by code_simp
  have h2: "suffix ''.py'' ''/a/b/pkg/sub/mod.py''" by code_simp
  have p: "file2module_parts ''/a/b/pkg/sub/mod.py'' ''/a/b/'' = [''pkg'', ''sub'', ''mod'']"
    by code_simp
  have h3: "\<forall>seg \<in> set (file2module_parts ''/a/b/pkg/sub/mod.py'' ''/a/b/'').
              \<not> has_empty_segment seg"
    by code_simp
  have ne: "file2module ''/a/b/pkg/sub/mod.py'' ''/a/b/'' \<noteq> []" by code_simp
  from file2module_prefixed [OF h1 h2 h3] h1 h2 p ne show ?thesis by blast
qed

text \<open>
  Claim C1 as it is stated fails where a directory or file name begins with a dot: the
  root is a prefix, the path ends in \<open>.py\<close>, and the module name begins with a dot and
  has an empty first segment.
\<close>

theorem file2module_prefixed_counterexample:
  "prefix ''/a/b/'' ''/a/b/.hidden/mod.py''
   \<and> suffix ''.py'' ''/a/b/.hidden/mod.py''
   \<and> file2module ''/a/b/.hidden/mod.py'' ''/a/b/'' = ''.hidden.mod''
   \<and> prefix ''.'' (file2module ''/a/b/.hidden/mod.py'' ''/a/b/'')
   \<and> has_empty_segment (file2module ''/a/b/.hidden/mod.py'' ''/a/b/'')"
  by code_simp

text \<open>
  Claim C10, as amended. \<open>file2module\<close> returns a module name for every file path and
  every root path, also when the root is not a prefix of the path and when the path
  does not end in \<open>.py\<close> (no operation of it can raise), and equal inputs give equal
  outputs. The result never contains a path separator. A result that is not empty has
  an empty segment between dots exactly when one of the path segments it is joined from
  has one; it begins with a dot exactly when the first of these segments does, and ends
  with a dot exactly when the last of them does.
\<close>

theorem file2module_total:
  "(\<exists>m. file2module f r = m)
   \<and> (f' = f \<and> r' = r \<longrightarrow> file2module f' r' = file2module f r)
   \<and> CHR ''/'' \<notin> set (file2module f r)
   \<and> (file2module f r \<noteq> [] \<longrightarrow>
        (has_empty_segment (file2module f r)
           \<longleftrightarrow> (\<exists>seg \<in> set (file2module_parts f r). has_empty_segment seg)))
   \<and> (prefix ''.'' (file2module f r)
        \<longleftrightarrow> file2module_parts f r \<noteq> [] \<and> prefix ''.'' (hd (file2module_parts f r)))
   \<and> (suffix ''.'' (file2module f r)
        \<longleftrightarrow> file2module_parts f r \<noteq> [] \<and> suffix ''.'' (last (file2module_parts f r)))"
proof -
  have sep: "CHR ''/'' \<notin> set (file2module f r)"
    using set_join [of "''.''" "file2module_parts f r"] parts_no_sep [of _ f r]
    by (auto simp: file2module_join)
  have segs: "file2module f r \<noteq> [] \<longrightarrow>
        (has_empty_segment (file2module f r)
           \<longleftrightarrow> (\<exists>seg \<in> set (file2module_parts f r). has_empty_segment seg))"
  proof
    assume "file2module f r \<noteq> []"
    then have "file2module_parts f r \<noteq> []" by (auto simp: file2module_join)
    then show "has_empty_segment (file2module f r)
           \<longleftrightarrow> (\<exists>seg \<in> set (file2module_parts f r). has_empty_segment seg)"
      by (simp add: file2module_join has_empty_segment_join)
  qed
  have lead: "prefix ''.'' (file2module f r)
        \<longleftrightarrow> file2module_parts f r \<noteq> [] \<and> prefix ''.'' (hd (file2module_parts f r))"
    by (simp add: file2module_join join_prefix [OF parts_nonempty])
  have trail: "suffix ''.'' (file2module f r)
        \<longleftrightarrow> file2module_parts f r \<noteq> [] \<and> suffix ''.'' (last (file2module_parts f r))"
    by (simp add: file2module_join join_suffix [OF parts_nonempty])
  from sep segs lead trail show ?thesis by blast
qed

text \<open>The theorem at \<open>docs/guide/index\<close> under the root \<open>/src/\<close>, which is no prefix of it.\<close>

theorem file2module_total_witness:
  "\<not> prefix ''/src/'' ''docs/guide/index''
   \<and> \<not> suffix ''.py'' ''docs/guide/index''
   \<and> file2module_parts ''docs/guide/index'' ''/src/'' = [''docs'', ''guide'', ''index'']
   \<and> file2module ''docs/guide/index'' ''/src/'' = ''docs.guide.index''
   \<and> CHR ''/'' \<notin> set (file2module ''docs/guide/index'' ''/src/'')
   \<and> \<not> has_empty_segment (file2module ''docs/guide/index'' ''/src/'')
   \<and> \<not> prefix ''.'' (file2module ''docs/guide/index'' ''/src/'')
   \<and> \<not> suffix ''.'' (file2module ''docs/guide/index'' ''/src/'')"
proof -
  let ?f = "''docs/guide/index''" and ?r = "''/src/''"
  note t = file2module_total [of ?f ?r ?f ?r]
  have h1: "\<not> prefix ?r ?f" by code_simp
  have h2: "\<not> suffix ''.py'' ?f" by code_simp
  have p: "file2module_parts ?f ?r = [''docs'', ''guide'', ''index'']" by code_simp
  have v: "file2module ?f ?r = ''docs.guide.index''" by code_simp
  have ne: "file2module ?f ?r \<noteq> []" by code_simp
  have s: "\<not> (\<exists>seg \<in> set (file2module_parts ?f ?r). has_empty_segment seg)"
    by code_simp
  have l: "\<not> (file2module_parts ?f ?r \<noteq> [] \<and> prefix ''.'' (hd (file2module_parts ?f ?r)))"
    by code_simp
  have e: "\<not> (file2module_parts ?f ?r \<noteq> [] \<and> suffix ''.'' (last (file2module_parts ?f ?r)))"
    by code_simp
  from t have c1: "CHR ''/'' \<notin> set (file2module ?f ?r)" by blast
  from t ne s have c2: "\<not> has_empty_segment (file2module ?f ?r)" by blast
  from t l have c3: "\<not> prefix ''.'' (file2module ?f ?r)" by blast
  from t e have c4: "\<not> suffix ''.'' (file2module ?f ?r)" by blast
  from h1 h2 p v c1 c2 c3 c4 show ?thesis by blast
qed

text \<open>
  Claim C10 as it is stated fails for a path with a segment that begins with a dot: the
  result has two dots in a row, an empty segment.
\<close>

theorem file2module_total_counterexample:
  "\<not> prefix ''/src/'' ''docs/.build/index''
   \<and> \<not> suffix ''.py'' ''docs/.build/index''
   \<and> file2module ''docs/.build/index'' ''/src/'' = ''docs..build.index''
   \<and> has_empty_segment (file2module ''docs/.build/index'' ''/src/'')"
  by code_simp

section \<open>Splitting at the last separator\<close>

lemma split_snoc_sep: "split (xs @ [c]) c = split xs c @ [[]]"
  using split_append_sep [of xs c "[]"] by simp

lemma split_snoc_other:
  "y \<noteq> c \<Longrightarrow> split (xs @ [y]) c = butlast (split xs c) @ [last (split xs c) @ [y]]"
  by (induction xs) (auto split: list.splits simp: split_neq_Nil)

lemma last_split_snoc: "y \<noteq> c \<Longrightarrow> last (split (xs @ [y]) c) = last (split xs c) @ [y]"
  by (simp add: split_snoc_other)

lemma last_filter_holds:
  assumes "xs \<noteq> []" and "P (last xs)"
  shows "filter P xs \<noteq> [] \<and> last (filter P xs) = last xs"
proof -
  from assms(1) obtain ys y where "xs = ys @ [y]" by (cases xs rule: rev_cases) auto
  with assms(2) show ?thesis by simp
qed

lemma last_split_Nil_iff: "last (split x c) = [] \<longleftrightarrow> x = [] \<or> suffix [c] x"
proof (cases x rule: rev_cases)
  case Nil
  then show ?thesis by simp
next
  case (snoc ys y)
  show ?thesis
  proof (cases "y = c")
    case True
    with snoc show ?thesis by (simp add: split_snoc_sep)
  next
    case False
    with snoc show ?thesis by (simp add: last_split_snoc)
  qed
qed

lemma getitem_minus2: "ys \<noteq> [] \<Longrightarrow> getitem (ys @ [z]) (- 2) = Inr (last ys)"
proof -
  assume "ys \<noteq> []"
  then obtain us u where ys: "ys = us @ [u]" by (cases ys rule: rev_cases) auto
  have "nat (int (length (us @ [u, z])) + - 2) = length us" by simp
  then show ?thesis by (simp add: getitem_def ys nth_append)
qed

lemma normalize_dir_snoc: "normalize_dir d = butlast (normalize_dir d) @ ''/''"
  by (auto simp: normalize_dir_def endswith_def suffix_def)

lemma normalize_dir_cases: "normalize_dir d = d \<or> butlast (normalize_dir d) = d"
  by (auto simp: normalize_dir_def)

lemma package_name_of_normalized:
  "package_name_of (normalize_dir d) = Inr (last (split (butlast (normalize_dir d)) CHR ''/''))"
proof -
  have "split (normalize_dir d) CHR ''/'' = split (butlast (normalize_dir d)) CHR ''/'' @ [[]]"
    using normalize_dir_snoc [of d] split_snoc_sep [of "butlast (normalize_dir d)" "CHR ''/''"]
    by simp
  then show ?thesis
    by (simp add: package_name_of_def getitem_minus2 split_neq_Nil)
qed

lemma segments_butlast_normalized:
  "filter (\<lambda>seg. seg \<noteq> []) (split (butlast (normalize_dir d)) CHR ''/'')
   = filter (\<lambda>seg. seg \<noteq> []) (split d CHR ''/'')"
proof (cases "endswith d ''/''")
  case True
  then obtain x where "d = x @ ''/''" by (auto simp: endswith_def suffix_def)
  then show ?thesis by (simp add: normalize_dir_def endswith_def split_snoc_sep)
next
  case False
  then show ?thesis by (simp add: normalize_dir_def)
qed

lemma last_segment_of_name:
  assumes "package_name_of (normalize_dir d) = Inr n" and "n \<noteq> []"
  shows "last_segment d = Some n"
proof -
  let ?xs = "split (butlast (normalize_dir d)) CHR ''/''"
  let ?segs = "filter (\<lambda>seg. seg \<noteq> []) (split d CHR ''/'')"
  from assms(1) have n: "n = last ?xs" by (simp add: package_name_of_normalized)
  have ne: "?xs \<noteq> []" by (rule split_neq_Nil)
  from n assms(2) have "last ?xs \<noteq> []" by simp
  with ne have "filter (\<lambda>seg. seg \<noteq> []) ?xs \<noteq> []
      \<and> last (filter (\<lambda>seg. seg \<noteq> []) ?xs) = last ?xs"
    by (intro last_filter_holds)
  then have "?segs \<noteq> []" and l: "last ?segs = n"
    by (simp_all add: segments_butlast_normalized n)
  then obtain seg segs where c: "?segs = seg # segs" by (cases ?segs) auto
  have "last_segment d = Some (last (seg # segs))"
    unfolding last_segment_def c by simp
  with l c show ?thesis by simp
qed

section \<open>Directory normalisation and the package name: claim C6\<close>

text \<open>
  Claim C6, as amended. The package and docs directory paths are normalised to end with
  a path separator. The package name is then the segment that stands before the final
  separator of the normalised package directory. Whenever that segment is not empty it
  is the last non-empty path segment of the package directory. It is empty exactly when
  the normalised package directory is \<open>/\<close> alone or ends in two separators.
\<close>

theorem package_name_segment:
  "endswith (normalize_dir package_dir) ''/''
   \<and> endswith (normalize_dir docs_dir) ''/''
   \<and> package_name_of (normalize_dir package_dir)
       = Inr (last (split (butlast (normalize_dir package_dir)) CHR ''/''))
   \<and> (package_name_of (normalize_dir package_dir) = Inr n \<and> n \<noteq> []
        \<longrightarrow> last_segment package_dir = Some n)
   \<and> (package_name_of (normalize_dir package_dir) = Inr []
        \<longleftrightarrow> normalize_dir package_dir = ''/'' \<or> endswith (normalize_dir package_dir) ''//'')"
proof -
  have e: "endswith (normalize_dir d) ''/''" for d
    by (simp add: normalize_dir_def endswith_def)
  have z: "package_name_of (normalize_dir package_dir) = Inr []
        \<longleftrightarrow> normalize_dir package_dir = ''/'' \<or> endswith (normalize_dir package_dir) ''//''"
  proof -
    let ?x = "butlast (normalize_dir package_dir)"
    have nd: "normalize_dir package_dir = ?x @ ''/''" by (rule normalize_dir_snoc)
    have "package_name_of (normalize_dir package_dir) = Inr [] \<longleftrightarrow> ?x = [] \<or> suffix ''/'' ?x"
      by (simp add: package_name_of_normalized last_split_Nil_iff)
    also have "?x = [] \<longleftrightarrow> normalize_dir package_dir = ''/''"
      using nd by (metis append_Nil butlast_snoc)
    also have "suffix ''/'' ?x \<longleftrightarrow> endswith (normalize_dir package_dir) ''//''"
    proof -
      have "suffix ''/'' ?x \<longleftrightarrow> suffix (''/'' @ ''/'') (?x @ ''/'')" by simp
      then show ?thesis using nd by (simp add: endswith_def)
    qed
    finally show ?thesis .
  qed
  from e [of package_dir] e [of docs_dir] package_name_of_normalized [of package_dir]
    last_segment_of_name [of package_dir n] z
  show ?thesis by blast
qed

text \<open>The theorem at the package directory \<open>src/erptools\<close>.\<close>

theorem package_name_segment_witness:
  "normalize_dir ''src/erptools'' = ''src/erptools/''
   \<and> endswith (normalize_dir ''src/erptools'') ''/''
   \<and> endswith (normalize_dir ''./docs/erptools/'') ''/''
   \<and> package_name_of (normalize_dir ''src/erptools'') = Inr ''erptools''
   \<and> last_segment ''src/erptools'' = Some ''erptools''"
proof -
  have n: "normalize_dir ''src/erptools'' = ''src/erptools/''" by code_simp
  have p: "package_name_of (normalize_dir ''src/erptools'') = Inr ''erptools''" by code_simp
  have ne: "''erptools'' \<noteq> []" by simp
  from package_name_segment [of "''src/erptools''" "''./docs/erptools/''" "''erptools''"] n p ne
  show ?thesis by blast
qed

text \<open>
  Claim C6 as it is stated fails for a package directory that ends in two separators:
  it is left as it is, the package name is the empty string, and the last non-empty
  segment is \<open>pkg\<close>.
\<close>

theorem package_name_segment_counterexample:
  "endswith ''pkg//'' ''/''
   \<and> normalize_dir ''pkg//'' = ''pkg//''
   \<and> package_name_of (normalize_dir ''pkg//'') = Inr []
   \<and> last_segment ''pkg//'' = Some ''pkg''"
  by code_simp

section \<open>The output path: claim C2\<close>

text \<open>
  Claim C2 does not hold of the code. \<open>main\<close> computes the output path with
  \<open>str.replace\<close>, which replaces every occurrence. For the package directory \<open>pkg/\<close>
  and the docs directory \<open>docs/\<close> the file \<open>pkg/pkg/a.py\<close> is processed (it is not
  passed over by the test of line 205), its module name \<open>pkg.a\<close> is computed by
  stripping the prefix once, and its output path is \<open>docs/docs/a.md\<close>, where the claim
  gives \<open>docs/pkg/a.md\<close>; for the file \<open>pkg/my.pyutils/a.py\<close> the output path is
  \<open>docs/my.mdutils/a.md\<close>, where the claim gives \<open>docs/my.pyutils/a.md\<close>.
\<close>

theorem output_file_replaces_everywhere:
  "\<not> skipped ''pkg'' [''__init__.py'', ''version.py''] ''pkg/pkg/a.py''
   \<and> output_file ''pkg/pkg/a.py'' ''pkg/'' ''docs/'' = ''docs/docs/a.md''
   \<and> claimed_output_file ''pkg/pkg/a.py'' ''pkg/'' ''docs/'' = ''docs/pkg/a.md''
   \<and> file2module ''pkg/pkg/a.py'' ''pkg/'' = ''pkg.a''
   \<and> \<not> skipped ''pkg'' [''__init__.py'', ''version.py''] ''pkg/my.pyutils/a.py''
   \<and> output_file ''pkg/my.pyutils/a.py'' ''pkg/'' ''docs/'' = ''docs/my.mdutils/a.md''
   \<and> claimed_output_file ''pkg/my.pyutils/a.py'' ''pkg/'' ''docs/'' = ''docs/my.pyutils/a.md''"
  by code_simp

section \<open>Applying the overrides: claims C3 and C7\<close>

lemma first_python_loader_None_iff:
  "first_python_loader ls = None \<longleftrightarrow> (\<forall>l. PythonLoader l \<notin> set ls)"
  by (induction ls rule: first_python_loader.induct) auto

lemma first_python_loader_split:
  "first_python_loader ls = Some l \<Longrightarrow>
   \<exists>pre post. ls = pre @ PythonLoader l # post
     \<and> first_python_loader pre = None
     \<and> set_first_python_loader l' ls = pre @ PythonLoader l' # post"
proof (induction ls rule: first_python_loader.induct)
  case 1
  then show ?case by simp
next
  case (2 k ls)
  then have "PythonLoader k # ls = [] @ PythonLoader l # ls
      \<and> first_python_loader [] = None
      \<and> set_first_python_loader l' (PythonLoader k # ls) = [] @ PythonLoader l' # ls"
    by simp
  then show ?case by blast
next
  case (3 x ls)
  then obtain pre post where "ls = pre @ PythonLoader l # post"
    and "first_python_loader pre = None"
    and "set_first_python_loader l' ls = pre @ PythonLoader l' # post"
    by auto
  then have "OtherLoader x # ls = (OtherLoader x # pre) @ PythonLoader l # post
      \<and> first_python_loader (OtherLoader x # pre) = None
      \<and> set_first_python_loader l' (OtherLoader x # ls)
          = (OtherLoader x # pre) @ PythonLoader l' # post"
    by simp
  then show ?case by blast
qed

lemma first_python_loader_append:
  "first_python_loader pre = None \<Longrightarrow>
   first_python_loader (pre @ PythonLoader l # post) = Some l"
  by (induction pre rule: first_python_loader.induct) auto

lemma apply_overrides_requested:
  assumes "override_requested self" and "first_python_loader (loaders cfg) = Some l"
  shows "apply_overrides self cfg
         = Inr (cfg\<lparr>loaders := set_first_python_loader (overridden self l) (loaders cfg)\<rparr>)"
  using assms
  by (cases l; cases "py2 self") (simp_all add: apply_overrides_def overridden_def Let_def)


text \<open>
  Claim C3, as amended. When the override step is triggered and a Python loader is
  found, \<open>apply_overrides\<close> succeeds and changes the first Python loader of the
  configuration only (the loaders before and after it, the renderer file name and the
  unknown fields stay). Each of \<open>modules\<close>, \<open>packages\<close> and \<open>search_path\<close> replaces the
  loader's field exactly when it was supplied with a non-empty list; an override that is
  \<open>None\<close> or an empty list leaves the field as it was. The flag \<open>py2\<close> replaces the
  parser setting exactly when it is not \<open>None\<close>. In particular, with \<open>modules\<close> and
  \<open>packages\<close> \<open>None\<close> the loader's \<open>modules\<close> and \<open>packages\<close> are unchanged.
\<close>

theorem apply_overrides_fields:
  assumes "override_requested self" and "first_python_loader (loaders cfg) = Some l"
  shows "\<exists>cfg' l' pre post.
           apply_overrides self cfg = Inr cfg'
         \<and> loaders cfg = pre @ PythonLoader l # post
         \<and> loaders cfg' = pre @ PythonLoader l' # post
         \<and> first_python_loader (loaders cfg') = Some l'
         \<and> renderer_filename cfg' = renderer_filename cfg
         \<and> unknown_fields cfg' = unknown_fields cfg
         \<and> loader_modules l' = (if truthy (modules self) then modules self else loader_modules l)
         \<and> loader_packages l'
             = (if truthy (packages self) then packages self else loader_packages l)
         \<and> loader_search_path l'
             = (if truthy (search_path self) then search_path self else loader_search_path l)
         \<and> print_function (loader_parser l')
             = (case py2 self of None \<Rightarrow> print_function (loader_parser l) | Some b \<Rightarrow> \<not> b)
         \<and> (modules self = None \<and> packages self = None
              \<longrightarrow> loader_modules l' = loader_modules l \<and> loader_packages l' = loader_packages l)"
proof -
  let ?l' = "overridden self l"
  let ?cfg' = "cfg\<lparr>loaders := set_first_python_loader ?l' (loaders cfg)\<rparr>"
  from assms have r: "apply_overrides self cfg = Inr ?cfg'"
    by (rule apply_overrides_requested)
  from first_python_loader_split [OF assms(2), of ?l']
  obtain pre post where ls: "loaders cfg = pre @ PythonLoader l # post"
    and pre: "first_python_loader pre = None"
    and ls': "set_first_python_loader ?l' (loaders cfg) = pre @ PythonLoader ?l' # post"
    by blast
  have f: "first_python_loader (loaders ?cfg') = Some ?l'"
    using pre ls' by (simp add: first_python_loader_append)
  have p: "print_function (loader_parser ?l')
             = (case py2 self of None \<Rightarrow> print_function (loader_parser l) | Some b \<Rightarrow> \<not> b)"
    by (simp add: overridden_def split: option.splits)
  have m: "loader_modules ?l' = (if truthy (modules self) then modules self else loader_modules l)"
    and k: "loader_packages ?l'
             = (if truthy (packages self) then packages self else loader_packages l)"
    and sp: "loader_search_path ?l'
             = (if truthy (search_path self) then search_path self else loader_search_path l)"
    by (simp_all add: overridden_def)
  have fr: "modules self = None \<and> packages self = None
              \<longrightarrow> loader_modules ?l' = loader_modules l \<and> loader_packages ?l' = loader_packages l"
    by (simp add: overridden_def)
  have "apply_overrides self cfg = Inr ?cfg'
         \<and> loaders cfg = pre @ PythonLoader l # post
         \<and> loaders ?cfg' = pre @ PythonLoader ?l' # post
         \<and> first_python_loader (loaders ?cfg') = Some ?l'
         \<and> renderer_filename ?cfg' = renderer_filename cfg
         \<and> unknown_fields ?cfg' = unknown_fields cfg"
    using r ls ls' f by simp
  with m k sp p fr show ?thesis by blast
qed


text \<open>
  The theorem for a session that supplies \<open>search_path\<close> only: the loader's modules and
  packages are those of before.
\<close>

theorem apply_overrides_fields_witness:
  "override_requested search_path_only
   \<and> modules search_path_only = None
   \<and> packages search_path_only = None
   \<and> first_python_loader (loaders demo_config) = Some demo_loader
   \<and> apply_overrides search_path_only demo_config
       = Inr (demo_config\<lparr>loaders :=
                [OtherLoader ''custom'',
                 PythonLoader (demo_loader\<lparr>loader_search_path := Some [''src/'']\<rparr>)]\<rparr>)
   \<and> loader_modules (demo_loader\<lparr>loader_search_path := Some [''src/'']\<rparr>)
       = loader_modules demo_loader
   \<and> loader_packages (demo_loader\<lparr>loader_search_path := Some [''src/'']\<rparr>)
       = loader_packages demo_loader"
proof -
  let ?l' = "demo_loader\<lparr>loader_search_path := Some [''src/'']\<rparr>"
  let ?cfg' = "demo_config\<lparr>loaders := [OtherLoader ''custom'', PythonLoader ?l']\<rparr>"
  have h1: "override_requested search_path_only"
    by (simp add: override_requested_def search_path_only_def)
  have h2: "first_python_loader (loaders demo_config) = Some demo_loader"
    by (simp add: demo_config_def)
  have n: "modules search_path_only = None" "packages search_path_only = None"
    by (simp_all add: search_path_only_def)
  have e: "apply_overrides search_path_only demo_config = Inr ?cfg'"
    by (simp add: apply_overrides_def override_requested_def search_path_only_def
        demo_config_def Let_def)
  have f: "first_python_loader (loaders ?cfg') = Some ?l'" by simp
  from apply_overrides_fields [OF h1 h2] obtain cfg' l' where
    "apply_overrides search_path_only demo_config = Inr cfg'"
    and "first_python_loader (loaders cfg') = Some l'"
    and "modules search_path_only = None \<and> packages search_path_only = None
          \<longrightarrow> loader_modules l' = loader_modules demo_loader
            \<and> loader_packages l' = loader_packages demo_loader"
    by blast
  with e f n have "loader_modules ?l' = loader_modules demo_loader"
    and "loader_packages ?l' = loader_packages demo_loader"
    by simp_all
  with h1 h2 n e show ?thesis by blast
qed

text \<open>
  Claim C3 as it is stated fails for an override supplied as the empty list. The session
  that \<open>main\<close> builds supplies \<open>packages = []\<close>; the step is triggered, the loader is
  found, and its \<open>packages\<close> field is still \<open>['erptools']\<close>.
\<close>

theorem apply_overrides_fields_counterexample:
  "packages (session ''pydoc-markdown.yml'' ''erptools/'' ''erptools/io.py'') = Some []
   \<and> override_requested (session ''pydoc-markdown.yml'' ''erptools/'' ''erptools/io.py'')
   \<and> first_python_loader (loaders demo_config) = Some demo_loader
   \<and> loader_packages demo_loader = Some [''erptools'']
   \<and> apply_overrides (session ''pydoc-markdown.yml'' ''erptools/'' ''erptools/io.py'') demo_config
       = Inr (demo_config\<lparr>loaders :=
                [OtherLoader ''custom'',
                 PythonLoader
                   \<lparr>loader_modules = Some [''io''],
                    loader_packages = Some [''erptools''],
                    loader_search_path = Some [''erptools/''],
                    loader_parser = \<lparr>print_function = True\<rparr>\<rparr>]\<rparr>)"
proof -
  have m: "file2module ''erptools/io.py'' ''erptools/'' = ''io''" by code_simp
  show ?thesis
    by (simp add: apply_overrides_def override_requested_def session_def demo_config_def
        demo_loader_def Let_def m)
qed

lemma map_print_function_set_first:
  assumes "first_python_loader ls = Some l"
    and "print_function (loader_parser l') = print_function (loader_parser l)"
  shows "map loader_print_function (set_first_python_loader l' ls) = map loader_print_function ls"
proof -
  from first_python_loader_split [OF assms(1), of l']
  obtain pre post where "ls = pre @ PythonLoader l # post"
    and "set_first_python_loader l' ls = pre @ PythonLoader l' # post"
    by blast
  with assms(2) show ?thesis by simp
qed

text \<open>
  Claim C7. When \<open>py2\<close> is not \<open>None\<close> and a Python loader is found, \<open>apply_overrides\<close>
  succeeds and the loader's \<open>parser.print_function\<close> is the negation of the flag. When
  \<open>py2\<close> is \<open>None\<close> and \<open>apply_overrides\<close> returns, the parser setting of every loader
  is what it was.
\<close>

theorem apply_overrides_print_function:
  "(py2 self = Some b \<and> first_python_loader (loaders cfg) = Some l \<longrightarrow>
      (\<exists>cfg' l'. apply_overrides self cfg = Inr cfg'
         \<and> first_python_loader (loaders cfg') = Some l'
         \<and> print_function (loader_parser l') = (\<not> b)))
   \<and> (py2 self = None \<and> apply_overrides self cfg = Inr cfg'' \<longrightarrow>
        map loader_print_function (loaders cfg'') = map loader_print_function (loaders cfg))"
proof (intro conjI impI)
  assume a: "py2 self = Some b \<and> first_python_loader (loaders cfg) = Some l"
  then have req: "override_requested self" by (simp add: override_requested_def)
  let ?l' = "overridden self l"
  let ?cfg' = "cfg\<lparr>loaders := set_first_python_loader ?l' (loaders cfg)\<rparr>"
  from req a have r: "apply_overrides self cfg = Inr ?cfg'"
    by (simp add: apply_overrides_requested)
  from a first_python_loader_split [of "loaders cfg" l ?l']
  obtain pre post where "first_python_loader pre = None"
    and "set_first_python_loader ?l' (loaders cfg) = pre @ PythonLoader ?l' # post"
    by blast
  then have f: "first_python_loader (loaders ?cfg') = Some ?l'"
    by (simp add: first_python_loader_append)
  from a have "print_function (loader_parser ?l') = (\<not> b)"
    by (simp add: overridden_def)
  with r f show "\<exists>cfg' l'. apply_overrides self cfg = Inr cfg'
         \<and> first_python_loader (loaders cfg') = Some l'
         \<and> print_function (loader_parser l') = (\<not> b)"
    by blast
next
  assume a: "py2 self = None \<and> apply_overrides self cfg = Inr cfg''"
  show "map loader_print_function (loaders cfg'') = map loader_print_function (loaders cfg)"
  proof (cases "override_requested self")
    case False
    with a show ?thesis by (simp add: apply_overrides_def)
  next
    case True
    show ?thesis
    proof (cases "first_python_loader (loaders cfg)")
      case None
      with True a show ?thesis by (simp add: apply_overrides_def)
    next
      case (Some l)
      with True a have c: "cfg'' = cfg\<lparr>loaders :=
          set_first_python_loader (overridden self l) (loaders cfg)\<rparr>"
        by (simp add: apply_overrides_requested)
      from a have "print_function (loader_parser (overridden self l))
          = print_function (loader_parser l)"
        by (simp add: overridden_def)
      with Some show ?thesis
        by (simp add: c map_print_function_set_first)
    qed
  qed
qed

text \<open>
  The theorem for a session with \<open>py2 = True\<close> on a loader whose \<open>print_function\<close> was
  \<open>True\<close>, and for a session with \<open>py2 = None\<close>.
\<close>

theorem apply_overrides_print_function_witness:
  "py2 legacy_only = Some True
   \<and> first_python_loader (loaders demo_config) = Some demo_loader
   \<and> print_function (loader_parser demo_loader)
   \<and> apply_overrides legacy_only demo_config
       = Inr (demo_config\<lparr>loaders :=
                [OtherLoader ''custom'',
                 PythonLoader (demo_loader\<lparr>loader_parser := \<lparr>print_function = False\<rparr>\<rparr>)]\<rparr>)
   \<and> \<not> print_function (loader_parser (demo_loader\<lparr>loader_parser := \<lparr>print_function = False\<rparr>\<rparr>))
   \<and> py2 search_path_only = None
   \<and> map loader_print_function
        (loaders (demo_config\<lparr>loaders :=
                [OtherLoader ''custom'',
                 PythonLoader (demo_loader\<lparr>loader_search_path := Some [''src/'']\<rparr>)]\<rparr>))
       = map loader_print_function (loaders demo_config)"
proof -
  let ?l1 = "demo_loader\<lparr>loader_parser := \<lparr>print_function = False\<rparr>\<rparr>"
  let ?c1 = "demo_config\<lparr>loaders := [OtherLoader ''custom'', PythonLoader ?l1]\<rparr>"
  let ?c2 = "demo_config\<lparr>loaders :=
                [OtherLoader ''custom'',
                 PythonLoader (demo_loader\<lparr>loader_search_path := Some [''src/'']\<rparr>)]\<rparr>"
  have h1: "py2 legacy_only = Some True" by (simp add: legacy_only_def)
  have h2: "first_python_loader (loaders demo_config) = Some demo_loader"
    by (simp add: demo_config_def)
  have p: "print_function (loader_parser demo_loader)" by (simp add: demo_loader_def)
  have e1: "apply_overrides legacy_only demo_config = Inr ?c1"
    by (simp add: apply_overrides_def override_requested_def legacy_only_def
        demo_config_def demo_loader_def Let_def)
  have f1: "first_python_loader (loaders ?c1) = Some ?l1" by simp
  have h3: "py2 search_path_only = None" by (simp add: search_path_only_def)
  have e2: "apply_overrides search_path_only demo_config = Inr ?c2"
    by (simp add: apply_overrides_def override_requested_def search_path_only_def
        demo_config_def Let_def)
  from apply_overrides_print_function [of legacy_only True demo_config demo_loader] h1 h2
  obtain cfg' l' where "apply_overrides legacy_only demo_config = Inr cfg'"
    and "first_python_loader (loaders cfg') = Some l'"
    and "print_function (loader_parser l') = (\<not> True)"
    by blast
  with e1 f1 have c1: "\<not> print_function (loader_parser ?l1)" by simp
  from apply_overrides_print_function [of search_path_only _ demo_config _ ?c2] h3 e2
  have c2: "map loader_print_function (loaders ?c2) = map loader_print_function (loaders demo_config)"
    by blast
  from h1 h2 p e1 c1 h3 c2 show ?thesis by blast
qed


section \<open>Loading without a Python loader: claim C4\<close>

lemma apply_overrides_no_loader:
  assumes "override_requested self" and "\<forall>l. PythonLoader l \<notin> set (loaders cfg)"
  shows "apply_overrides self cfg = Inl (ValueError ''no python loader found'')"
proof -
  from assms(2) have "first_python_loader (loaders cfg) = None"
    by (simp add: first_python_loader_None_iff)
  with assms(1) show ?thesis by (simp add: apply_overrides_def)
qed

lemma load_raises:
  assumes "base_config E self s = (Inr cfg, s1)" and "apply_overrides self cfg = Inl e"
  shows "load E self s = (Inl e, s1)"
  using assms by (simp add: load_def bind_action_def lift_def)

lemma bind_action_raises: "m s = (Inl e, s1) \<Longrightarrow> bind_action m f s = (Inl e, s1)"
  by (simp add: bind_action_def)

lemma bind_action_returns: "m s = (Inr x, s1) \<Longrightarrow> bind_action m f s = f x s1"
  by (simp add: bind_action_def)

text \<open>
  Claim C4. Let the configuration that \<open>load\<close> starts from (a fresh one, with the
  session's \<open>config\<close> loaded into it when there is one) hold no Python loader, and let
  one of \<open>modules\<close>, \<open>packages\<close>, \<open>search_path\<close> be a non-empty list or \<open>py2\<close> be not
  \<open>None\<close>. Then \<open>load\<close> raises \<open>ValueError("no python loader found")\<close>, in the state
  the configuration was loaded in; and a \<open>render\<close> that follows the \<open>load\<close> is not run:
  the sequence ends with the same error in the same state.
\<close>

theorem load_without_python_loader:
  assumes "base_config E self s = (Inr cfg, s1)"
    and "\<forall>l. PythonLoader l \<notin> set (loaders cfg)"
    and "truthy (modules self) \<or> truthy (packages self) \<or> truthy (search_path self)
         \<or> py2 self \<noteq> None"
  shows "load E self s = (Inl (ValueError ''no python loader found''), s1)
       \<and> bind_action (load E self) (render E self) s
           = (Inl (ValueError ''no python loader found''), s1)"
proof -
  from assms(3) have "override_requested self" by (simp add: override_requested_def)
  then have "apply_overrides self cfg = Inl (ValueError ''no python loader found'')"
    using assms(2) by (rule apply_overrides_no_loader)
  with assms(1) have "load E self s = (Inl (ValueError ''no python loader found''), s1)"
    by (rule load_raises)
  then show ?thesis by (simp add: bind_action_raises)
qed

text \<open>
  The theorem for a session without a configuration source and a non-empty
  \<open>search_path\<close>, and for the session that \<open>main\<close> builds, whose configuration file
  gives one loader that is not a Python loader.
\<close>

theorem load_without_python_loader_witness:
  "base_config (demo_engine [OtherLoader ''custom'']) search_path_only \<lparr>logged = [], outside = 0\<rparr>
     = (Inr \<lparr>loaders = [], renderer_filename = None, unknown_fields = []\<rparr>,
        \<lparr>logged = [], outside = 0\<rparr>)
   \<and> truthy (search_path search_path_only)
   \<and> load (demo_engine [OtherLoader ''custom'']) search_path_only \<lparr>logged = [], outside = 0\<rparr>
       = (Inl (ValueError ''no python loader found''), \<lparr>logged = [], outside = 0\<rparr>)
   \<and> base_config (demo_engine [OtherLoader ''custom''])
        (session ''pydoc-markdown.yml'' ''erptools/'' ''erptools/io.py'')
        \<lparr>logged = [], outside = 0\<rparr>
     = (Inr \<lparr>loaders = [OtherLoader ''custom''], renderer_filename = None, unknown_fields = []\<rparr>,
        \<lparr>logged = [], outside = 1\<rparr>)
   \<and> py2 (session ''pydoc-markdown.yml'' ''erptools/'' ''erptools/io.py'') = Some False
   \<and> load (demo_engine [OtherLoader ''custom''])
        (session ''pydoc-markdown.yml'' ''erptools/'' ''erptools/io.py'')
        \<lparr>logged = [], outside = 0\<rparr>
       = (Inl (ValueError ''no python loader found''), \<lparr>logged = [], outside = 1\<rparr>)"
proof -
  let ?E = "demo_engine [OtherLoader ''custom'']"
  let ?s = "\<lparr>logged = [], outside = 0::nat\<rparr>"
  let ?S = "session ''pydoc-markdown.yml'' ''erptools/'' ''erptools/io.py''"
  have b1: "base_config ?E search_path_only ?s
     = (Inr \<lparr>loaders = [], renderer_filename = None, unknown_fields = []\<rparr>, ?s)"
    by (simp add: base_config_def search_path_only_def demo_engine_def return_def)
  have t1: "truthy (search_path search_path_only)" by (simp add: search_path_only_def)
  have n1: "\<forall>l. PythonLoader l
      \<notin> set (loaders \<lparr>loaders = [], renderer_filename = None, unknown_fields = []\<rparr>)"
    by simp
  have b2: "base_config ?E ?S ?s
     = (Inr \<lparr>loaders = [OtherLoader ''custom''], renderer_filename = None, unknown_fields = []\<rparr>,
        \<lparr>logged = [], outside = 1\<rparr>)"
    by (simp add: base_config_def session_def demo_engine_def call_def)
  have t2: "py2 ?S = Some False" by (simp add: session_def)
  have n2: "\<forall>l. PythonLoader l
      \<notin> set (loaders \<lparr>loaders = [OtherLoader ''custom''], renderer_filename = None,
                        unknown_fields = []\<rparr>)"
    by simp
  from load_without_python_loader [OF b1 n1] t1
  have c1: "load ?E search_path_only ?s = (Inl (ValueError ''no python loader found''), ?s)"
    by blast
  from load_without_python_loader [OF b2 n2] t2
  have c2: "load ?E ?S ?s
      = (Inl (ValueError ''no python loader found''), \<lparr>logged = [], outside = 1\<rparr>)"
    by simp
  from b1 t1 c1 b2 t2 c2 show ?thesis by blast
qed

section \<open>The watch list: claim C8\<close>

lemma distinct_watch_list: "distinct (watch_list self ms)"
  by (simp add: watch_list_def Let_def split: config_arg.splits)

lemma set_watch_list:
  "set (watch_list self ms)
   = location_filename ` set ms \<union> (case config self of ConfigFile p \<Rightarrow> {p} | _ \<Rightarrow> {})"
  by (auto simp: watch_list_def Let_def split: config_arg.splits)

lemma render_returns:
  assumes "config_load_modules E cfg (outside s) = (Inr ms0, w1)"
    and "config_process E cfg ms0 w1 = (Inr ms1, w2)"
    and "config_render E cfg ms1 w2 = (Inr ms, w3)"
  shows "render E self cfg s = (Inr (watch_list self ms), s\<lparr>outside := w3\<rparr>)"
  using assms by (simp add: render_def bind_action_def call_def return_def)

text \<open>
  Claim C8, as amended. When the engine loads, processes and renders the modules
  without an exception, \<open>render\<close> returns a list without duplicates whose elements are
  exactly the \<open>location.filename\<close> of the modules in the list the loaders returned as
  \<open>process\<close> and \<open>render\<close>, which are handed that list and may change it in place,
  leave it; together with the configuration path when the session's \<open>config\<close> is a
  string, and with nothing else when it is a dictionary or \<open>None\<close>.
\<close>

theorem render_watch_files:
  assumes "config_load_modules E cfg (outside s) = (Inr ms0, w1)"
    and "config_process E cfg ms0 w1 = (Inr ms1, w2)"
    and "config_render E cfg ms1 w2 = (Inr ms, w3)"
  shows "\<exists>ws. render E self cfg s = (Inr ws, s\<lparr>outside := w3\<rparr>)
           \<and> distinct ws
           \<and> set ws = location_filename ` set ms
                      \<union> (case config self of ConfigFile p \<Rightarrow> {p} | _ \<Rightarrow> {})"
proof -
  have "render E self cfg s = (Inr (watch_list self ms), s\<lparr>outside := w3\<rparr>)"
    using assms by (rule render_returns)
  moreover have "distinct (watch_list self ms)" by (rule distinct_watch_list)
  moreover note set_watch_list [of self ms]
  ultimately show ?thesis by auto
qed

text \<open>
  The theorem for three modules in two files, with the session of \<open>main\<close> (a
  configuration file) and with a session without a configuration source.
\<close>

theorem render_watch_files_witness:
  "render (demo_engine [PythonLoader demo_loader])
      (session ''pydoc-markdown.yml'' ''erptools/'' ''erptools/io.py'') demo_config
      \<lparr>logged = [], outside = 0\<rparr>
     = (Inr [''pydoc-markdown.yml'', ''erptools/io.py'', ''erptools/fit.py''],
        \<lparr>logged = [], outside = 3\<rparr>)
   \<and> distinct [''pydoc-markdown.yml'', ''erptools/io.py'', ''erptools/fit.py'']
   \<and> location_filename ` set demo_modules = {''erptools/io.py'', ''erptools/fit.py''}
   \<and> render (demo_engine [PythonLoader demo_loader]) search_path_only demo_config
      \<lparr>logged = [], outside = 0\<rparr>
     = (Inr [''erptools/io.py'', ''erptools/fit.py''], \<lparr>logged = [], outside = 3\<rparr>)"
proof -
  let ?E = "demo_engine [PythonLoader demo_loader]"
  let ?s = "\<lparr>logged = [], outside = 0::nat\<rparr>"
  let ?S = "session ''pydoc-markdown.yml'' ''erptools/'' ''erptools/io.py''"
  have h1: "config_load_modules ?E demo_config (outside ?s) = (Inr demo_modules, 1)"
    by (simp add: demo_engine_def)
  have h2: "config_process ?E demo_config demo_modules 1 = (Inr demo_modules, 2)"
    by (simp add: demo_engine_def)
  have h3: "config_render ?E demo_config demo_modules 2 = (Inr demo_modules, 3)"
    by (simp add: demo_engine_def)
  have r1: "render ?E ?S demo_config ?s
     = (Inr [''pydoc-markdown.yml'', ''erptools/io.py'', ''erptools/fit.py''],
        \<lparr>logged = [], outside = 3\<rparr>)"
    by (simp add: render_def bind_action_def call_def return_def demo_engine_def
        watch_list_def Let_def demo_modules_def session_def)
  have r2: "render ?E search_path_only demo_config ?s
     = (Inr [''erptools/io.py'', ''erptools/fit.py''], \<lparr>logged = [], outside = 3\<rparr>)"
    by (simp add: render_def bind_action_def call_def return_def demo_engine_def
        watch_list_def Let_def demo_modules_def search_path_only_def)
  have f: "location_filename ` set demo_modules = {''erptools/io.py'', ''erptools/fit.py''}"
    by (auto simp: demo_modules_def)
  from render_watch_files [OF h1 h2 h3, of ?S] r1
  have d: "distinct [''pydoc-markdown.yml'', ''erptools/io.py'', ''erptools/fit.py'']"
    by auto
  from r1 d f r2 show ?thesis by blast
qed

text \<open>
  Claim C8 as it is stated fails where the engine's \<open>process\<close> step removes a module:
  the loaders find modules in \<open>erptools/io.py\<close> and \<open>erptools/fit.py\<close>, the session has
  no configuration file, and the list returned names \<open>erptools/io.py\<close> only.
\<close>

theorem render_watch_files_counterexample:
  "config_load_modules filtering_engine demo_config 0 = (Inr demo_modules, 1)
   \<and> map location_filename demo_modules
       = [''erptools/io.py'', ''erptools/io.py'', ''erptools/fit.py'']
   \<and> config search_path_only = NoConfig
   \<and> render filtering_engine search_path_only demo_config \<lparr>logged = [], outside = 0\<rparr>
       = (Inr [''erptools/io.py''], \<lparr>logged = [], outside = 3\<rparr>)
   \<and> set [''erptools/io.py''] \<noteq> location_filename ` set demo_modules"
proof -
  have l: "config_load_modules filtering_engine demo_config 0 = (Inr demo_modules, 1)"
    by (simp add: filtering_engine_def demo_engine_def)
  have m: "map location_filename demo_modules
       = [''erptools/io.py'', ''erptools/io.py'', ''erptools/fit.py'']"
    by (simp add: demo_modules_def)
  have c: "config search_path_only = NoConfig" by (simp add: search_path_only_def)
  have r: "render filtering_engine search_path_only demo_config \<lparr>logged = [], outside = 0\<rparr>
       = (Inr [''erptools/io.py''], \<lparr>logged = [], outside = 3\<rparr>)"
    by (simp add: render_def bind_action_def call_def return_def filtering_engine_def
        demo_engine_def watch_list_def Let_def demo_modules_def search_path_only_def)
  have "''erptools/fit.py'' \<in> location_filename ` set demo_modules"
    by (simp add: demo_modules_def)
  moreover have "''erptools/fit.py'' \<notin> set [''erptools/io.py'']" by simp
  ultimately have n: "set [''erptools/io.py''] \<noteq> location_filename ` set demo_modules"
    by metis
  from l m c r n show ?thesis by blast
qed

section \<open>The loop over the source files: claims C5 and C9\<close>

lemma main_loop_run_all:
  "main_loop E c pd dd pn skip files
   = run_all (map (process_file E c pd dd) (processed pn skip files))"
  by (induction files) (simp_all add: processed_def)

lemma processed_not_in_skip:
  "f \<in> set (processed pn skip files) \<Longrightarrow> basename f \<notin> set skip"
  by (auto simp: processed_def skipped_def)

lemma processed_filter:
  "processed pn skip (filter (\<lambda>f. basename f \<notin> set skip) files) = processed pn skip files"
  by (induction files) (auto simp: processed_def skipped_def)

lemma main_unfold:
  "main E c pd dd skip src s
   = main_loop E c (normalize_dir pd) (normalize_dir dd)
       (last (split (butlast (normalize_dir pd)) CHR ''/'')) skip
       (source_files E (normalize_dir pd) skip src (outside s)) s"
  by (cases src)
    (simp_all add: main_def Let_def package_name_of_normalized bind_action_def lift_def
      return_def source_files_def)

lemma call_logged: "call f s = (r, s') \<Longrightarrow> logged s' = logged s"
  by (auto simp: call_def split: prod.splits)

lemma base_config_logged: "base_config E self s = (r, s') \<Longrightarrow> logged s' = logged s"
  by (auto simp: base_config_def return_def dest: call_logged split: if_splits)


lemma log_adds_return: "log_adds P (return x)"
  by (simp add: log_adds_def return_def)

lemma log_adds_lift: "log_adds P (lift r)"
  by (simp add: log_adds_def lift_def)

lemma log_adds_call: "log_adds P (call f)"
  by (auto simp: log_adds_def dest: call_logged)

lemma log_adds_log_msg: "r \<in> P \<Longrightarrow> log_adds P (log_msg r)"
  by (auto simp: log_adds_def log_msg_def)

lemma log_adds_bind:
  assumes "log_adds P m" and "\<And>x. log_adds P (f x)"
  shows "log_adds P (bind_action m f)"
  unfolding log_adds_def
proof (intro allI impI)
  fix s r s'
  assume b: "bind_action m f s = (r, s')"
  obtain r1 s1 where m: "m s = (r1, s1)" by (cases "m s")
  with assms(1) have l1: "set (logged s1) \<subseteq> set (logged s) \<union> P"
    by (auto simp: log_adds_def)
  show "set (logged s') \<subseteq> set (logged s) \<union> P"
  proof (cases r1)
    case (Inl e)
    with b m have "s' = s1" by (simp add: bind_action_def)
    with l1 show ?thesis by simp
  next
    case (Inr x)
    with b m have "f x s1 = (r, s')" by (simp add: bind_action_def)
    with assms(2) [of x] have "set (logged s') \<subseteq> set (logged s1) \<union> P"
      by (auto simp: log_adds_def)
    with l1 show ?thesis by blast
  qed
qed

lemma log_adds_load: "log_adds (range unknown_fields_warning) (load E self)"
  unfolding load_def
  by (intro log_adds_bind log_adds_return log_adds_lift)
    (auto simp: base_config_def intro!: log_adds_call log_adds_return log_adds_bind
      log_adds_log_msg split: config_arg.splits)

lemma log_adds_render: "log_adds P (render E self cfg)"
  unfolding render_def
  by (intro log_adds_bind log_adds_return log_adds_call)

lemma log_adds_mono: "log_adds P m \<Longrightarrow> P \<subseteq> Q \<Longrightarrow> log_adds Q m"
  by (auto simp: log_adds_def) blast

lemma log_adds_process_file:
  "log_adds (insert (processing f) (range unknown_fields_warning)) (process_file E c pd dd f)"
  unfolding process_file_def
  by (intro log_adds_bind log_adds_return log_adds_call log_adds_render
      log_adds_log_msg log_adds_mono [OF log_adds_load])
    (auto simp: processing_def)

lemma log_adds_run_all: "(\<And>a. a \<in> set as \<Longrightarrow> log_adds P a) \<Longrightarrow> log_adds P (run_all as)"
  by (induction as) (auto intro: log_adds_return log_adds_bind)

lemma log_adds_main_loop:
  "log_adds (processing ` set (processed pn skip files) \<union> range unknown_fields_warning)
     (main_loop E c pd dd pn skip files)"
  unfolding main_loop_run_all
  by (rule log_adds_run_all) (auto intro: log_adds_mono [OF log_adds_process_file])


lemma processing_not_warning: "processing f \<notin> range unknown_fields_warning"
  by (auto simp: processing_def unknown_fields_warning_def)

lemma processing_inject: "processing f = processing g \<longleftrightarrow> f = g"
  by (simp add: processing_def)

text \<open>
  Claim C5. A run of \<open>main\<close>, with the source files walked or given, is the body of the
  loop (the log record, the module name, the output path, the directory, the session,
  its load and its render) run for the processed files one after the other and for no
  other file. No processed file has a base name in \<open>skip_files\<close>, so removing the
  skip-listed files from the list beforehand changes nothing; every file the walk
  collects is a name of a walked directory that is not in \<open>skip_files\<close>; and a run logs no \<open>Processing file\<close> record, the first
  step of the body, for a file whose base name is in \<open>skip_files\<close>.
\<close>

theorem skip_list_enforced:
  "(\<exists>pn. package_name_of (normalize_dir package_dir) = Inr pn
       \<and> main E c package_dir docs_dir skip src s
          = run_all
              (map (process_file E c (normalize_dir package_dir) (normalize_dir docs_dir))
                 (processed pn skip
                    (source_files E (normalize_dir package_dir) skip src (outside s)))) s)
   \<and> (\<forall>f \<in> set (processed pn' skip files). basename f \<notin> set skip)
   \<and> processed pn' skip (filter (\<lambda>f. basename f \<notin> set skip) files) = processed pn' skip files
   \<and> (\<forall>p \<in> set (discover walked skip).
         \<exists>root dirs names f. (root, dirs, names) \<in> set walked \<and> f \<in> set names
           \<and> p = os_path_join root f \<and> endswith f ''.py'' \<and> f \<notin> set skip)
   \<and> (main E c package_dir docs_dir skip src s = (r, s') \<and> basename f \<in> set skip
        \<and> processing f \<notin> set (logged s)
       \<longrightarrow> processing f \<notin> set (logged s'))"
proof -
  let ?pn = "last (split (butlast (normalize_dir package_dir)) CHR ''/'')"
  let ?files = "source_files E (normalize_dir package_dir) skip src (outside s)"
  have m: "main E c package_dir docs_dir skip src s
      = main_loop E c (normalize_dir package_dir) (normalize_dir docs_dir) ?pn skip ?files s"
    by (rule main_unfold)
  have a: "\<exists>pn. package_name_of (normalize_dir package_dir) = Inr pn
       \<and> main E c package_dir docs_dir skip src s
          = run_all
              (map (process_file E c (normalize_dir package_dir) (normalize_dir docs_dir))
                 (processed pn skip ?files)) s"
    using m package_name_of_normalized [of package_dir] by (simp add: main_loop_run_all)
  have b: "\<forall>f \<in> set (processed pn' skip files). basename f \<notin> set skip"
    by (simp add: processed_not_in_skip)
  have d: "main E c package_dir docs_dir skip src s = (r, s') \<and> basename f \<in> set skip
        \<and> processing f \<notin> set (logged s)
       \<longrightarrow> processing f \<notin> set (logged s')"
  proof (intro impI notI, elim conjE)
    assume run: "main E c package_dir docs_dir skip src s = (r, s')"
      and sk: "basename f \<in> set skip"
      and old: "processing f \<notin> set (logged s)"
      and new: "processing f \<in> set (logged s')"
    from run m log_adds_main_loop [of ?pn skip ?files E c "normalize_dir package_dir"
        "normalize_dir docs_dir"]
    have "set (logged s') \<subseteq> set (logged s)
        \<union> (processing ` set (processed ?pn skip ?files) \<union> range unknown_fields_warning)"
      by (simp add: log_adds_def)
    with new old processing_not_warning [of f]
    have "processing f \<in> processing ` set (processed ?pn skip ?files)" by blast
    then have "f \<in> set (processed ?pn skip ?files)" by (auto simp: processing_inject)
    with sk show False by (simp add: processed_not_in_skip)
  qed
  have w: "\<forall>p \<in> set (discover walked skip).
         \<exists>root dirs names f. (root, dirs, names) \<in> set walked \<and> f \<in> set names
           \<and> p = os_path_join root f \<and> endswith f ''.py'' \<and> f \<notin> set skip"
    by (fastforce simp: discover_def)
  from a b d w processed_filter [of pn' skip files] show ?thesis by blast
qed


text \<open>The run of the concrete engine on the package directory \<open>erptools\<close>.\<close>

lemma run_demo_pure:
  "normalize_dir ''erptools'' = ''erptools/''"
  "normalize_dir ''docs/erptools'' = ''docs/erptools/''"
  "package_name_of ''erptools/'' = Inr ''erptools''"
  "last (split (butlast ''erptools/'') CHR ''/'') = ''erptools''"
  "discover [(''erptools/'', [], [''__init__.py'', ''io.py'', ''notes.txt''])]
     [''__init__.py'', ''version.py''] = [''erptools/io.py'']"
  "processed ''erptools'' [''__init__.py'', ''version.py''] [''erptools/io.py'']
     = [''erptools/io.py'']"
  "processed ''erptools'' [''__init__.py'', ''version.py'']
     [''erptools/__init__.py'', ''erptools/io.py''] = [''erptools/io.py'']"
  "output_file ''erptools/io.py'' ''erptools/'' ''docs/erptools/'' = ''docs/erptools/io.md''"
  "dirname ''docs/erptools/io.md'' = ''docs/erptools''"
  "file2module ''erptools/io.py'' ''erptools/'' = ''io''"
  "basename ''erptools/__init__.py'' = ''__init__.py''"
  "dirname (os_path_join ''/work'' ''pydoc-markdown.yml'') = ''/work''"
  by code_simp+

lemma process_demo:
  "process_file (demo_engine [PythonLoader demo_loader]) ''pydoc-markdown.yml''
     ''erptools/'' ''docs/erptools/'' ''erptools/io.py'' \<lparr>logged = [], outside = 0\<rparr>
   = (Inr (), \<lparr>logged = [processing ''erptools/io.py''], outside = 6\<rparr>)"
  by (simp add: process_file_def bind_action_def log_msg_def call_def return_def lift_def
      load_def base_config_def render_def session_def apply_overrides_def
      override_requested_def Let_def demo_engine_def processing_def run_demo_pure)

lemma process_demo_no_loader:
  "process_file (demo_engine [OtherLoader ''custom'']) ''pydoc-markdown.yml''
     ''erptools/'' ''docs/erptools/'' ''erptools/io.py'' \<lparr>logged = [], outside = 0\<rparr>
   = (Inl (ValueError ''no python loader found''),
      \<lparr>logged = [processing ''erptools/io.py''], outside = 2\<rparr>)"
  by (simp add: process_file_def bind_action_def log_msg_def call_def return_def lift_def
      load_def base_config_def render_def session_def apply_overrides_def
      override_requested_def Let_def demo_engine_def processing_def run_demo_pure)

text \<open>
  The theorem for the package directory \<open>erptools\<close>, walked and with an explicit list
  that names \<open>erptools/__init__.py\<close>: one file is processed in each run.
\<close>

theorem skip_list_enforced_witness:
  "main (demo_engine [PythonLoader demo_loader]) ''pydoc-markdown.yml'' ''erptools''
     ''docs/erptools'' [''__init__.py'', ''version.py''] None \<lparr>logged = [], outside = 0\<rparr>
     = (Inr (), \<lparr>logged = [processing ''erptools/io.py''], outside = 6\<rparr>)
   \<and> main (demo_engine [PythonLoader demo_loader]) ''pydoc-markdown.yml'' ''erptools''
     ''docs/erptools'' [''__init__.py'', ''version.py'']
     (Some [''erptools/__init__.py'', ''erptools/io.py'']) \<lparr>logged = [], outside = 0\<rparr>
     = (Inr (), \<lparr>logged = [processing ''erptools/io.py''], outside = 6\<rparr>)
   \<and> basename ''erptools/__init__.py'' \<in> set [''__init__.py'', ''version.py'']
   \<and> processing ''erptools/__init__.py''
       \<notin> set (logged \<lparr>logged = [processing ''erptools/io.py''], outside = 6::nat\<rparr>)"
proof -
  let ?E = "demo_engine [PythonLoader demo_loader]"
  let ?skip = "[''__init__.py'', ''version.py'']"
  let ?s = "\<lparr>logged = [], outside = 0::nat\<rparr>"
  let ?s' = "\<lparr>logged = [processing ''erptools/io.py''], outside = 6::nat\<rparr>"
  let ?src = "Some [''erptools/__init__.py'', ''erptools/io.py'']"
  have w: "source_files ?E ''erptools/'' ?skip None 0 = [''erptools/io.py'']"
    by (simp add: source_files_def demo_engine_def run_demo_pure)
  have r1: "main ?E ''pydoc-markdown.yml'' ''erptools'' ''docs/erptools'' ?skip None ?s
      = (Inr (), ?s')"
    by (simp add: main_unfold main_loop_run_all run_demo_pure w bind_action_def
        process_demo return_def)
  have r2: "main ?E ''pydoc-markdown.yml'' ''erptools'' ''docs/erptools'' ?skip ?src ?s
      = (Inr (), ?s')"
    by (simp add: main_unfold main_loop_run_all run_demo_pure source_files_def bind_action_def
        process_demo return_def)
  have b: "basename ''erptools/__init__.py'' \<in> set ?skip"
    by (simp add: run_demo_pure)
  have o: "processing ''erptools/__init__.py'' \<notin> set (logged ?s)" by simp
  from skip_list_enforced [of "''erptools''" ?E "''pydoc-markdown.yml''" "''docs/erptools''"
      ?skip ?src ?s _ _ _ "Inr ()" ?s' "''erptools/__init__.py''"] r2 b o
  have "processing ''erptools/__init__.py'' \<notin> set (logged ?s')" by blast
  with r1 r2 b show ?thesis by blast
qed


text \<open>The session that \<open>main\<close> builds always asks for overrides.\<close>

lemma session_overrides:
  "py2 (session c pd f) = Some False"
  "packages (session c pd f) = Some []"
  "override_requested (session c pd f)"
  by (simp_all add: session_def override_requested_def)

lemma load_aborts:
  assumes "\<forall>s cfg s1. base_config E self s = (Inr cfg, s1)
             \<longrightarrow> (\<forall>l. PythonLoader l \<notin> set (loaders cfg))"
    and "override_requested self"
  shows "\<exists>e s'. load E self s = (Inl e, s') \<and> logged s' = logged s
           \<and> (\<forall>cfg s2. base_config E self s = (Inr cfg, s2)
                 \<longrightarrow> e = ValueError ''no python loader found'' \<and> s' = s2)"
proof -
  obtain r s1 where b: "base_config E self s = (r, s1)" by (cases "base_config E self s")
  then have l: "logged s1 = logged s" by (rule base_config_logged)
  show ?thesis
  proof (cases r)
    case (Inl e)
    with b have "load E self s = (Inl e, s1)" by (simp add: load_def bind_action_def)
    with b l Inl show ?thesis by simp
  next
    case (Inr cfg)
    with b assms(1) have "\<forall>l. PythonLoader l \<notin> set (loaders cfg)" by blast
    with assms(2) have "apply_overrides self cfg = Inl (ValueError ''no python loader found'')"
      by (rule apply_overrides_no_loader)
    with b Inr have "load E self s = (Inl (ValueError ''no python loader found''), s1)"
      by (simp add: load_raises)
    with b l Inr show ?thesis by simp
  qed
qed

lemma process_file_aborts:
  assumes "\<forall>s cfg s1. base_config E (session c pd f) s = (Inr cfg, s1)
             \<longrightarrow> (\<forall>l. PythonLoader l \<notin> set (loaders cfg))"
  shows "\<exists>e s'. process_file E c pd dd f s = (Inl e, s')
           \<and> logged s' = logged s @ [processing f]
           \<and> (\<forall>w1 cfg s2.
                 os_makedirs E (dirname (output_file f pd dd)) (outside s) = (Inr (), w1)
                 \<and> base_config E (session c pd f)
                      \<lparr>logged = logged s @ [processing f], outside = w1\<rparr> = (Inr cfg, s2)
                 \<longrightarrow> e = ValueError ''no python loader found'' \<and> s' = s2)"
proof -
  let ?s0 = "s\<lparr>logged := logged s @ [processing f]\<rparr>"
  obtain r w1 where mk: "os_makedirs E (dirname (output_file f pd dd)) (outside s) = (r, w1)"
    by (cases "os_makedirs E (dirname (output_file f pd dd)) (outside s)")
  let ?s1 = "?s0\<lparr>outside := w1\<rparr>"
  have s1: "?s1 = \<lparr>logged = logged s @ [processing f], outside = w1\<rparr>" by simp
  show ?thesis
  proof (cases r)
    case (Inl e)
    with mk have "process_file E c pd dd f s = (Inl e, ?s1)"
      by (simp add: process_file_def bind_action_def log_msg_def call_def processing_def)
    with mk Inl show ?thesis by simp
  next
    case (Inr u)
    from load_aborts [OF assms session_overrides(3), of ?s1]
    obtain e s' where ld: "load E (session c pd f) ?s1 = (Inl e, s')"
      and lg: "logged s' = logged ?s1"
      and ve: "\<forall>cfg s2. base_config E (session c pd f) ?s1 = (Inr cfg, s2)
                 \<longrightarrow> e = ValueError ''no python loader found'' \<and> s' = s2"
      by blast
    from mk Inr ld have "process_file E c pd dd f s = (Inl e, s')"
      by (simp add: process_file_def bind_action_def log_msg_def call_def processing_def)
    moreover from ve have "\<forall>cfg s2. base_config E (session c pd f)
          \<lparr>logged = logged s @ [processing f], outside = w1\<rparr> = (Inr cfg, s2)
        \<longrightarrow> e = ValueError ''no python loader found'' \<and> s' = s2"
      by (simp add: s1)
    moreover from lg have "logged s' = logged s @ [processing f]" by simp
    ultimately show ?thesis using mk by auto
  qed
qed

lemma main_loop_skip_prefix:
  "\<forall>g \<in> set pre. skipped pn skip g \<Longrightarrow>
   main_loop E c pd dd pn skip (pre @ files) = main_loop E c pd dd pn skip files"
  by (induction pre) simp_all

text \<open>
  Claim C9. The session \<open>main\<close> builds for a file has \<open>py2 = False\<close>, not \<open>None\<close>, so it
  asks for overrides although its \<open>packages\<close> is the empty list. Let \<open>f\<close> be the first
  source file that is not passed over, and let every configuration the engine builds for
  its session hold no Python loader. Then the run ends with an exception at \<open>f\<close>: the log
  has the one record for \<open>f\<close>, no later file is processed, and when the output
  directory was made and the configuration was built the exception is
  \<open>ValueError("no python loader found")\<close>, raised in the state the configuration was
  built in, before anything is rendered.
\<close>

theorem no_python_loader_aborts_run:
  assumes "source_files E (normalize_dir package_dir) skip src (outside s) = pre @ f # rest"
    and "package_name_of (normalize_dir package_dir) = Inr pn"
    and "\<forall>g \<in> set pre. skipped pn skip g"
    and "\<not> skipped pn skip f"
    and "\<forall>s cfg s1. base_config E (session c (normalize_dir package_dir) f) s = (Inr cfg, s1)
             \<longrightarrow> (\<forall>l. PythonLoader l \<notin> set (loaders cfg))"
  shows "py2 (session c (normalize_dir package_dir) f) = Some False
       \<and> packages (session c (normalize_dir package_dir) f) = Some []
       \<and> override_requested (session c (normalize_dir package_dir) f)
       \<and> (\<exists>e s'. main E c package_dir docs_dir skip src s = (Inl e, s')
            \<and> logged s' = logged s @ [processing f]
            \<and> (\<forall>w1 cfg s2.
                 os_makedirs E
                   (dirname (output_file f (normalize_dir package_dir) (normalize_dir docs_dir)))
                   (outside s) = (Inr (), w1)
                 \<and> base_config E (session c (normalize_dir package_dir) f)
                      \<lparr>logged = logged s @ [processing f], outside = w1\<rparr> = (Inr cfg, s2)
                 \<longrightarrow> e = ValueError ''no python loader found'' \<and> s' = s2))"
proof -
  let ?pd = "normalize_dir package_dir" and ?dd = "normalize_dir docs_dir"
  from assms(2) have pn: "last (split (butlast ?pd) CHR ''/'') = pn"
    by (simp add: package_name_of_normalized)
  have "main E c package_dir docs_dir skip src s
      = main_loop E c ?pd ?dd pn skip (pre @ f # rest) s"
    by (simp add: main_unfold pn assms(1))
  also have "\<dots> = main_loop E c ?pd ?dd pn skip (f # rest) s"
    using assms(3) by (simp add: main_loop_skip_prefix)
  also have "\<dots> = bind_action (process_file E c ?pd ?dd f)
      (\<lambda>_. main_loop E c ?pd ?dd pn skip rest) s"
    using assms(4) by simp
  finally have m: "main E c package_dir docs_dir skip src s
      = bind_action (process_file E c ?pd ?dd f)
          (\<lambda>_. main_loop E c ?pd ?dd pn skip rest) s" .
  from process_file_aborts [OF assms(5), of ?dd s]
  obtain e s' where p: "process_file E c ?pd ?dd f s = (Inl e, s')"
    and lg: "logged s' = logged s @ [processing f]"
    and ve: "\<forall>w1 cfg s2.
                 os_makedirs E (dirname (output_file f ?pd ?dd)) (outside s) = (Inr (), w1)
                 \<and> base_config E (session c ?pd f)
                      \<lparr>logged = logged s @ [processing f], outside = w1\<rparr> = (Inr cfg, s2)
                 \<longrightarrow> e = ValueError ''no python loader found'' \<and> s' = s2"
    by blast
  from m p have "main E c package_dir docs_dir skip src s = (Inl e, s')"
    by (simp add: bind_action_raises)
  with lg ve session_overrides [of c ?pd f] show ?thesis by blast
qed

text \<open>
  The theorem for an engine whose configuration file gives one loader that is not a
  Python loader, and three files of which the first is skip-listed.
\<close>

theorem no_python_loader_aborts_run_witness:
  "source_files (demo_engine [OtherLoader ''custom'']) (normalize_dir ''erptools'')
      [''__init__.py'', ''version.py'']
      (Some [''erptools/__init__.py'', ''erptools/io.py'', ''erptools/fit.py'']) 0
     = [''erptools/__init__.py''] @ ''erptools/io.py'' # [''erptools/fit.py'']
   \<and> package_name_of (normalize_dir ''erptools'') = Inr ''erptools''
   \<and> skipped ''erptools'' [''__init__.py'', ''version.py''] ''erptools/__init__.py''
   \<and> \<not> skipped ''erptools'' [''__init__.py'', ''version.py''] ''erptools/io.py''
   \<and> main (demo_engine [OtherLoader ''custom'']) ''pydoc-markdown.yml'' ''erptools''
        ''docs/erptools'' [''__init__.py'', ''version.py'']
        (Some [''erptools/__init__.py'', ''erptools/io.py'', ''erptools/fit.py''])
        \<lparr>logged = [], outside = 0\<rparr>
       = (Inl (ValueError ''no python loader found''),
          \<lparr>logged = [processing ''erptools/io.py''], outside = 2\<rparr>)"
proof -
  let ?E = "demo_engine [OtherLoader ''custom'']"
  let ?skip = "[''__init__.py'', ''version.py'']"
  let ?src = "Some [''erptools/__init__.py'', ''erptools/io.py'', ''erptools/fit.py'']"
  let ?s = "\<lparr>logged = [], outside = 0::nat\<rparr>"
  let ?f = "''erptools/io.py''"
  have h1: "source_files ?E (normalize_dir ''erptools'') ?skip ?src (outside ?s)
     = [''erptools/__init__.py''] @ ?f # [''erptools/fit.py'']"
    by (simp add: source_files_def)
  have h2: "package_name_of (normalize_dir ''erptools'') = Inr ''erptools''"
    by (simp add: run_demo_pure)
  have k1: "skipped ''erptools'' ?skip ''erptools/__init__.py''"
    by (simp add: skipped_def run_demo_pure)
  then have h3: "\<forall>g \<in> set [''erptools/__init__.py'']. skipped ''erptools'' ?skip g" by simp
  have h4: "\<not> skipped ''erptools'' ?skip ?f" by code_simp
  have h5: "\<forall>s cfg s1.
      base_config ?E (session ''pydoc-markdown.yml'' (normalize_dir ''erptools'') ?f) s
        = (Inr cfg, s1) \<longrightarrow> (\<forall>l. PythonLoader l \<notin> set (loaders cfg))"
    by (auto simp: base_config_def session_def call_def demo_engine_def)
  have mk: "os_makedirs ?E
      (dirname (output_file ?f (normalize_dir ''erptools'') (normalize_dir ''docs/erptools'')))
      (outside ?s) = (Inr (), 1)"
    by (simp add: demo_engine_def)
  have bc: "base_config ?E (session ''pydoc-markdown.yml'' (normalize_dir ''erptools'') ?f)
      \<lparr>logged = logged ?s @ [processing ?f], outside = 1\<rparr>
     = (Inr \<lparr>loaders = [OtherLoader ''custom''], renderer_filename = None, unknown_fields = []\<rparr>,
        \<lparr>logged = [processing ?f], outside = 2\<rparr>)"
    by (simp add: base_config_def session_def call_def demo_engine_def)
  from no_python_loader_aborts_run [OF h1 h2 h3 h4 h5, of "''docs/erptools''"]
  obtain e s' where
    r: "main ?E ''pydoc-markdown.yml'' ''erptools'' ''docs/erptools'' ?skip ?src ?s = (Inl e, s')"
    and v: "\<forall>w1 cfg s2.
                 os_makedirs ?E
                   (dirname (output_file ?f (normalize_dir ''erptools'')
                      (normalize_dir ''docs/erptools'')))
                   (outside ?s) = (Inr (), w1)
                 \<and> base_config ?E (session ''pydoc-markdown.yml'' (normalize_dir ''erptools'') ?f)
                      \<lparr>logged = logged ?s @ [processing ?f], outside = w1\<rparr> = (Inr cfg, s2)
                 \<longrightarrow> e = ValueError ''no python loader found'' \<and> s' = s2"
    by blast
  from v mk bc have "e = ValueError ''no python loader found''
      \<and> s' = \<lparr>logged = [processing ?f], outside = 2\<rparr>"
    by blast
  with r h1 h2 k1 h4 show ?thesis by simp
qed

end
